theory Spec2Isabelle
  imports Main "HOL-Library.Sublist" "HOL-Library.AList"
begin

section \<open>The JNI C++ module generator (GenerateModuleJniCpp.js)\<close>

text \<open>
  A shallow embedding of \<^verbatim>\<open>packages/react-native-codegen/src/generators/modules/GenerateModuleJniCpp.js\<close>.
  JavaScript strings are \<^typ>\<open>string\<close>; a thrown \<^verbatim>\<open>Error\<close> is a value \<open>Inl (Error msg)\<close> of a
  sum type, so every \<^verbatim>\<open>throw\<close> of the source is a branch of the model; a plain JavaScript
  object used as a dictionary is an association list of its own properties in insertion
  order.
\<close>

subsection \<open>Errors\<close>

datatype error = Error (message: string)

type_synonym 'a result = "error + 'a"

definition bind :: "'a result \<Rightarrow> ('a \<Rightarrow> 'b result) \<Rightarrow> 'b result" where
  "bind r f = (case r of Inl e \<Rightarrow> Inl e | Inr v \<Rightarrow> f v)"

text \<open>\<^verbatim>\<open>xs.map(f)\<close> where \<^verbatim>\<open>f\<close> may throw: elements are translated left to right and the
  first exception aborts the whole map.\<close>

fun mapResult :: "('a \<Rightarrow> 'b result) \<Rightarrow> 'a list \<Rightarrow> 'b list result" where
  "mapResult f [] = Inr []"
| "mapResult f (x # xs) =
     (case f x of
        Inl e \<Rightarrow> Inl e
      | Inr y \<Rightarrow> (case mapResult f xs of Inl e \<Rightarrow> Inl e | Inr ys \<Rightarrow> Inr (y # ys)))"

subsection \<open>The schema (CodegenSchema)\<close>

text \<open>
  A type annotation is a JavaScript object with a string tag \<^verbatim>\<open>type\<close>. The fields \<^verbatim>\<open>name\<close>
  (read only for reserved scalars and alias references) and \<^verbatim>\<open>properties\<close> (read only for
  structural objects, and possibly absent) are carried by every annotation; the tag is an
  arbitrary string, so that annotations outside the closed set can be passed to the
  translators.
\<close>

datatype TypeAnnotation =
  TypeAnnotation (type: string) (name: string) (nullable: bool)
    (properties: "(string \<times> TypeAnnotation) list option")

record FunctionTypeAnnotationParam =
  param_name :: string
  param_nullable :: bool
  param_typeAnnotation :: TypeAnnotation

record FunctionTypeAnnotation =
  params :: "FunctionTypeAnnotationParam list"
  returnTypeAnnotation :: TypeAnnotation

record NativeModuleMethod =
  method_name :: string
  method_typeAnnotation :: FunctionTypeAnnotation

type_synonym 'a jsobject = "(string \<times> 'a) list"

record NativeModuleShape =
  aliases :: "TypeAnnotation jsobject"
  module_properties :: "NativeModuleMethod list"

record SchemaModule =
  nativeModules :: "NativeModuleShape jsobject option"

record SchemaType =
  modules :: "SchemaModule jsobject"

subsection \<open>translateReturnTypeToKind\<close>

definition translateReturnTypeToKind :: "TypeAnnotation \<Rightarrow> string result" where
  \<open>translateReturnTypeToKind typeAnnotation =
     (if type typeAnnotation = ''ReservedFunctionValueTypeAnnotation'' then
        (if name typeAnnotation = ''RootTag'' then Inr ''NumberKind''
         else Inl (Error (''Invalid ReservedFunctionValueTypeName name, got '' @ name typeAnnotation)))
      else if type typeAnnotation = ''VoidTypeAnnotation'' then Inr ''VoidKind''
      else if type typeAnnotation = ''StringTypeAnnotation'' then Inr ''StringKind''
      else if type typeAnnotation = ''BooleanTypeAnnotation'' then Inr ''BooleanKind''
      else if type typeAnnotation = ''NumberTypeAnnotation''
            \<or> type typeAnnotation = ''DoubleTypeAnnotation''
            \<or> type typeAnnotation = ''FloatTypeAnnotation''
            \<or> type typeAnnotation = ''Int32TypeAnnotation'' then Inr ''NumberKind''
      else if type typeAnnotation = ''GenericPromiseTypeAnnotation'' then Inr ''PromiseKind''
      else if type typeAnnotation = ''GenericObjectTypeAnnotation''
            \<or> type typeAnnotation = ''ObjectTypeAnnotation'' then Inr ''ObjectKind''
      else if type typeAnnotation = ''ArrayTypeAnnotation'' then Inr ''ArrayKind''
      else Inl (Error (''Unknown prop type for returning value, found: ''
                        @ type typeAnnotation @ ''"'')))\<close>

subsection \<open>Alias resolution\<close>

text \<open>
  Modelled from the spec: \<^verbatim>\<open>getTypeAliasTypeAnnotation\<close> is imported from \<^verbatim>\<open>./Utils\<close>, which is
  not among the sources. The specification says that an alias reference is resolved
  through the module's alias table, that the table maps an alias name to a concrete
  annotation in a single step, and that a name absent from the table is a hard failure.
  The text of the failure message is not given there; the one below only has to name
  the alias.
\<close>

definition getTypeAliasTypeAnnotation ::
  "string \<Rightarrow> TypeAnnotation jsobject \<Rightarrow> TypeAnnotation result" where
  \<open>getTypeAliasTypeAnnotation aliasName aliasTable =
     (case map_of aliasTable aliasName of
        None \<Rightarrow> Inl (Error (''No type annotation found for "'' @ aliasName @ ''" in schema''))
      | Some typeAnnotation \<Rightarrow> Inr typeAnnotation)\<close>

subsection \<open>translateParamTypeToJniType and translateReturnTypeToJniType\<close>

definition translateParamTypeToJniType ::
  "FunctionTypeAnnotationParam \<Rightarrow> TypeAnnotation jsobject \<Rightarrow> string result" where
  \<open>translateParamTypeToJniType param aliasTable =
     bind (if type (param_typeAnnotation param) = ''TypeAliasTypeAnnotation''
           then getTypeAliasTypeAnnotation (name (param_typeAnnotation param)) aliasTable
           else Inr (param_typeAnnotation param))
       (\<lambda>realTypeAnnotation.
          if type realTypeAnnotation = ''ReservedFunctionValueTypeAnnotation'' then
            (if name realTypeAnnotation = ''RootTag'' then Inr ''D''
             else Inl (Error (''Invalid ReservedFunctionValueTypeName name, got ''
                               @ name realTypeAnnotation)))
          else if type realTypeAnnotation = ''VoidTypeAnnotation'' then Inr ''V''
          else if type realTypeAnnotation = ''StringTypeAnnotation'' then Inr ''Ljava/lang/String;''
          else if type realTypeAnnotation = ''BooleanTypeAnnotation'' then
            Inr (if param_nullable param then ''Ljava/lang/Boolean'' else ''Z'')
          else if type realTypeAnnotation = ''NumberTypeAnnotation''
                \<or> type realTypeAnnotation = ''DoubleTypeAnnotation''
                \<or> type realTypeAnnotation = ''FloatTypeAnnotation''
                \<or> type realTypeAnnotation = ''Int32TypeAnnotation'' then
            Inr (if param_nullable param then ''Ljava/lang/Double;'' else ''D'')
          else if type realTypeAnnotation = ''GenericPromiseTypeAnnotation'' then
            Inr ''Lcom/facebook/react/bridge/Promise;''
          else if type realTypeAnnotation = ''GenericObjectTypeAnnotation''
                \<or> type realTypeAnnotation = ''ObjectTypeAnnotation'' then
            Inr ''Lcom/facebook/react/bridge/ReadableMap;''
          else if type realTypeAnnotation = ''ArrayTypeAnnotation'' then
            Inr ''Lcom/facebook/react/bridge/ReadableArray;''
          else if type realTypeAnnotation = ''FunctionTypeAnnotation'' then
            Inr ''Lcom/facebook/react/bridge/Callback;''
          else Inl (Error (''Unknown prop type for method arg, found: ''
                            @ type realTypeAnnotation @ ''"'')))\<close>

definition translateReturnTypeToJniType :: "TypeAnnotation \<Rightarrow> string result" where
  \<open>translateReturnTypeToJniType typeAnnotation =
     (if type typeAnnotation = ''ReservedFunctionValueTypeAnnotation'' then
        (if name typeAnnotation = ''RootTag'' then Inr ''D''
         else Inl (Error (''Invalid ReservedFunctionValueTypeName name, got '' @ name typeAnnotation)))
      else if type typeAnnotation = ''VoidTypeAnnotation'' then Inr ''V''
      else if type typeAnnotation = ''StringTypeAnnotation'' then Inr ''Ljava/lang/String;''
      else if type typeAnnotation = ''BooleanTypeAnnotation'' then
        Inr (if nullable typeAnnotation then ''Ljava/lang/Boolean'' else ''Z'')
      else if type typeAnnotation = ''NumberTypeAnnotation''
            \<or> type typeAnnotation = ''DoubleTypeAnnotation''
            \<or> type typeAnnotation = ''FloatTypeAnnotation''
            \<or> type typeAnnotation = ''Int32TypeAnnotation'' then
        Inr (if nullable typeAnnotation then ''Ljava/lang/Double;'' else ''D'')
      else if type typeAnnotation = ''GenericPromiseTypeAnnotation'' then
        Inr ''Lcom/facebook/react/bridge/Promise;''
      else if type typeAnnotation = ''GenericObjectTypeAnnotation''
            \<or> type typeAnnotation = ''ObjectTypeAnnotation'' then
        Inr ''Lcom/facebook/react/bridge/WritableMap;''
      else if type typeAnnotation = ''ArrayTypeAnnotation'' then
        Inr ''Lcom/facebook/react/bridge/WritableArray;''
      else Inl (Error (''Unknown prop type for method return type, found: ''
                        @ type typeAnnotation @ ''"'')))\<close>

subsection \<open>translateMethodTypeToJniSignature\<close>

text \<open>\<^verbatim>\<open>parts.join(sep)\<close> on an array of strings.\<close>

fun join :: "string \<Rightarrow> string list \<Rightarrow> string" where
  "join sep [] = []"
| "join sep [x] = x"
| "join sep (x # y # ys) = x @ sep @ join sep (y # ys)"

definition translateMethodTypeToJniSignature ::
  "NativeModuleMethod \<Rightarrow> TypeAnnotation jsobject \<Rightarrow> string result" where
  \<open>translateMethodTypeToJniSignature property aliasTable =
     (let returnType = returnTypeAnnotation (method_typeAnnotation property);
          isPromiseReturn = (type returnType = ''GenericPromiseTypeAnnotation'');
          processedReturnTypeAnnotation =
            (if isPromiseReturn then TypeAnnotation ''VoidTypeAnnotation'' [] False None
             else returnType)
      in bind (mapResult (\<lambda>t. translateParamTypeToJniType t aliasTable)
                 (params (method_typeAnnotation property)))
           (\<lambda>translated.
              bind (if isPromiseReturn
                    then bind (translateReturnTypeToJniType returnType)
                           (\<lambda>promiseArg. Inr (translated @ [promiseArg]))
                    else Inr translated)
                (\<lambda>argsSignatureParts.
                   let argsSignature = join [] argsSignatureParts
                   in bind (if method_name property = ''getConstants''
                            then Inr ''Ljava/util/Map;''
                            else translateReturnTypeToJniType processedReturnTypeAnnotation)
                        (\<lambda>returnSignature.
                           Inr (''('' @ argsSignature @ '')'' @ returnSignature)))))\<close>

subsection \<open>String.prototype.replace with a literal pattern\<close>

text \<open>
  Every pattern of the source is a literal (a string, or a regular expression without
  metacharacters or capture groups), and every replacement value is a string. In a
  replacement string JavaScript expands \<^verbatim>\<open>$$\<close> to a dollar sign, \<^verbatim>\<open>$&\<close> to the matched text,
  \<^verbatim>\<open>$`\<close> to the text before the match and \<^verbatim>\<open>$'\<close> to the text after it; without capture
  groups every other use of the dollar sign stands for itself.
\<close>

fun getSubstitution :: "string \<Rightarrow> string \<Rightarrow> string \<Rightarrow> string \<Rightarrow> string" where
  "getSubstitution matched preceding following [] = []"
| "getSubstitution matched preceding following [c] = [c]"
| "getSubstitution matched preceding following (c # d # r) =
     (if c = CHR ''$'' \<and> d = CHR ''$'' then CHR ''$'' # getSubstitution matched preceding following r
      else if c = CHR ''$'' \<and> d = CHR ''&'' then matched @ getSubstitution matched preceding following r
      else if c = CHR ''$'' \<and> d = CHR ''`'' then preceding @ getSubstitution matched preceding following r
      else if c = CHR ''$'' \<and> d = CHR 0x27 then following @ getSubstitution matched preceding following r
      else c # getSubstitution matched preceding following (d # r))"

text \<open>
  \<^verbatim>\<open>s.replace(/pat/g, repl)\<close>: the matches are found left to right in the original text and
  do not overlap; replaced text is not scanned again. The text already passed is kept
  reversed in \<open>revBefore\<close>. No pattern of the source is empty.
\<close>

function replaceAllFrom :: "string \<Rightarrow> string \<Rightarrow> string \<Rightarrow> string \<Rightarrow> string" where
  "replaceAllFrom pat repl revBefore [] = []"
| "replaceAllFrom pat repl revBefore (c # cs) =
     (if pat \<noteq> [] \<and> prefix pat (c # cs)
      then getSubstitution pat (rev revBefore) (drop (length pat) (c # cs)) repl
             @ replaceAllFrom pat repl (rev pat @ revBefore) (drop (length pat) (c # cs))
      else c # replaceAllFrom pat repl (c # revBefore) cs)"
  by pat_completeness auto
termination
  by (relation "measure (\<lambda>(pat, repl, revBefore, s). length s)") (auto simp: neq_Nil_conv)

definition replaceAll :: "string \<Rightarrow> string \<Rightarrow> string \<Rightarrow> string" where
  "replaceAll pat repl s = replaceAllFrom pat repl [] s"

text \<open>\<^verbatim>\<open>s.replace('pat', repl)\<close> with a string pattern replaces the first occurrence only.\<close>

fun replaceFirstFrom :: "string \<Rightarrow> string \<Rightarrow> string \<Rightarrow> string \<Rightarrow> string" where
  "replaceFirstFrom pat repl revBefore [] = []"
| "replaceFirstFrom pat repl revBefore (c # cs) =
     (if pat \<noteq> [] \<and> prefix pat (c # cs)
      then getSubstitution pat (rev revBefore) (drop (length pat) (c # cs)) repl
             @ drop (length pat) (c # cs)
      else c # replaceFirstFrom pat repl (c # revBefore) cs)"

definition replaceFirst :: "string \<Rightarrow> string \<Rightarrow> string \<Rightarrow> string" where
  "replaceFirst pat repl s = replaceFirstFrom pat repl [] s"

text \<open>\<^verbatim>\<open>s.trim()\<close>, on the white space and line terminators of ASCII.\<close>

definition isWhiteSpace :: "char \<Rightarrow> bool" where
  "isWhiteSpace c = (c \<in> set [CHR 0x09, CHR 0x0A, CHR 0x0B, CHR 0x0C, CHR 0x0D, CHR 0x20])"

definition trim :: "string \<Rightarrow> string" where
  "trim s = rev (dropWhile isWhiteSpace (rev (dropWhile isWhiteSpace s)))"

text \<open>\<^verbatim>\<open>n.toString()\<close> for a non-negative integer: its decimal digits.\<close>

fun numberToString :: "nat \<Rightarrow> string" where
  "numberToString n =
     (if n < 10 then [''0123456789'' ! n]
      else numberToString (n div 10) @ [''0123456789'' ! (n mod 10)])"

declare numberToString.simps [simp del]

subsection \<open>The templates\<close>

definition propertyHeaderTemplate :: string where
  \<open>propertyHeaderTemplate =
     ''static facebook::jsi::Value __hostFunction_Native::_MODULE_NAME_::SpecJSI_::_PROPERTY_NAME_::(facebook::jsi::Runtime& rt, TurboModule &turboModule, const facebook::jsi::Value* args, size_t count) {''\<close>

definition propertyCastTemplate :: string where
  \<open>propertyCastTemplate =
     ''static_cast<JavaTurboModule &>(turboModule).invokeJavaMethod(rt, ::_KIND_::, "::_PROPERTY_NAME_::", "::_SIGNATURE_::", args, count);''\<close>

definition propertyTemplate :: string where
  \<open>propertyTemplate =
     ''\<newline>'' @ propertyHeaderTemplate @ ''\<newline>  return '' @ propertyCastTemplate @ ''\<newline>}''\<close>

definition propertyDefTemplate :: string where
  \<open>propertyDefTemplate =
     ''  methodMap_["::_PROPERTY_NAME_::"] = MethodMetadata {::_ARGS_COUNT_::, __hostFunction_Native::_MODULE_NAME_::SpecJSI_::_PROPERTY_NAME_::};''\<close>

definition moduleTemplate :: string where
  \<open>moduleTemplate = trim (
     ''\<newline>::_TURBOMODULE_METHOD_INVOKERS_::\<newline>''
     @ ''\<newline>''
     @ ''Native::_MODULE_NAME_::SpecJSI::Native::_MODULE_NAME_::SpecJSI(const JavaTurboModule::InitParams &params)\<newline>''
     @ ''  : JavaTurboModule(params) {\<newline>''
     @ ''::_PROPERTIES_MAP_::\<newline>''
     @ ''}'')\<close>

definition oneModuleLookupTemplate :: string where
  \<open>oneModuleLookupTemplate =
     ''  if (moduleName == "::_MODULE_NAME_::") {\<newline>''
     @ ''    return std::make_shared<Native::_MODULE_NAME_::SpecJSI>(params);\<newline>''
     @ ''  }''\<close>

definition template :: string where
  \<open>template =
     ''\<newline>/**\<newline>''
     @ '' * Copyright (c) Facebook, Inc. and its affiliates.\<newline>''
     @ '' *\<newline>''
     @ '' * This source code is licensed under the MIT license found in the\<newline>''
     @ '' * LICENSE file in the root directory of this source tree.\<newline>''
     @ '' *\<newline>''
     @ '' * @generated by codegen project: GenerateModuleJniCpp.js\<newline>''
     @ '' */\<newline>''
     @ ''\<newline>''
     @ ''#include ::_INCLUDE_::\<newline>''
     @ ''\<newline>''
     @ ''namespace facebook {\<newline>''
     @ ''namespace react {\<newline>''
     @ ''\<newline>''
     @ ''::_MODULES_::\<newline>''
     @ ''\<newline>''
     @ ''std::shared_ptr<TurboModule> ::_LIBRARY_NAME_::_ModuleProvider(const std::string moduleName, const JavaTurboModule::InitParams &params) {\<newline>''
     @ ''::_MODULE_LOOKUP_::\<newline>''
     @ ''}\<newline>''
     @ ''\<newline>''
     @ ''} // namespace react\<newline>''
     @ ''} // namespace facebook\<newline>''\<close>

subsection \<open>translateMethodForImplementation\<close>

definition translateMethodForImplementation ::
  "NativeModuleMethod \<Rightarrow> TypeAnnotation jsobject \<Rightarrow> string result" where
  \<open>translateMethodForImplementation property aliasTable =
     (let returnType = returnTypeAnnotation (method_typeAnnotation property);
          numberOfParams =
            length (params (method_typeAnnotation property))
            + (if type returnType = ''GenericPromiseTypeAnnotation'' then 1 else 0);
          translatedArguments =
            join '':''
              (drop 1 (map param_name (params (method_typeAnnotation property))
                       @ (if type returnType = ''GenericPromiseTypeAnnotation''
                          then [''promise''] else [])))
            @ '':''
      in if method_name property = ''getConstants''
            \<and> type returnType = ''ObjectTypeAnnotation''
            \<and> (case properties returnType of None \<Rightarrow> False | Some ps \<Rightarrow> length ps = 0)
         then Inr []
         else
           bind (translateReturnTypeToKind returnType)
             (\<lambda>kind.
                let withKind = replaceAll ''::_KIND_::'' kind propertyTemplate;
                    withName = replaceAll ''::_PROPERTY_NAME_::'' (method_name property) withKind;
                    withArgs = replaceAll ''::_ARGS_::''
                                 (if numberOfParams = 0 then []
                                  else (if numberOfParams = 1 then [] else '':'')
                                       @ translatedArguments)
                                 withName
                in bind (translateMethodTypeToJniSignature property aliasTable)
                     (\<lambda>signature. Inr (replaceAll ''::_SIGNATURE_::'' signature withArgs))))\<close>

subsection \<open>Plain objects as dictionaries: Object.keys and Object.assign\<close>

text \<open>
  A plain object is the list of its own properties in insertion order, with distinct
  keys. \<^verbatim>\<open>Object.keys\<close> does not return the keys in that order when some of them are array
  indices (canonical decimal numerals below \<open>2\<^sup>3\<^sup>2 - 1\<close>): those come first, in ascending
  numeric order, and the other keys follow in insertion order.
\<close>

definition isDigit :: "char \<Rightarrow> bool" where
  "isDigit c = (c \<in> set ''0123456789'')"

definition digitValue :: "char \<Rightarrow> nat" where
  "digitValue c = of_char c - 48"

definition decimalValue :: "string \<Rightarrow> nat" where
  "decimalValue s = foldl (\<lambda>acc c. 10 * acc + digitValue c) 0 s"

definition isArrayIndex :: "string \<Rightarrow> bool" where
  "isArrayIndex s =
     (s \<noteq> [] \<and> list_all isDigit s \<and> (s = ''0'' \<or> hd s \<noteq> CHR ''0'')
      \<and> decimalValue s < 4294967295)"

definition objectKeys :: "'a jsobject \<Rightarrow> string list" where
  "objectKeys obj =
     sort_key decimalValue (filter isArrayIndex (map fst obj))
     @ filter (\<lambda>k. \<not> isArrayIndex k) (map fst obj)"

text \<open>
  \<^verbatim>\<open>Object.assign(target, source)\<close> assigns the own properties of the source, in the order
  of its keys, to the target: an assignment to a key the target already has replaces the
  value where it stands, an assignment to a new key adds the property at the end.

  The key \<^verbatim>\<open>__proto__\<close> is the exception. The assignment \<^verbatim>\<open>target['__proto__'] = value\<close> does
  not define a property: it runs the setter that the target inherits from
  \<^verbatim>\<open>Object.prototype\<close>, which makes the value (an object, as all values of the dictionaries
  here are) the prototype of the target. The target gets no own property, so neither
  \<^verbatim>\<open>Object.keys\<close> nor the lookup of an own key sees any change: the model leaves the
  target as it is.
\<close>

definition objectAssign :: "'a jsobject \<Rightarrow> 'a jsobject \<Rightarrow> 'a jsobject" where
  "objectAssign target source =
     foldl (\<lambda>acc key. if key = ''__proto__'' then acc
                      else case map_of source key of
                             None \<Rightarrow> acc
                           | Some v \<Rightarrow> AList.update key v acc)
       target (objectKeys source)"

subsection \<open>generate\<close>

text \<open>The groups of the schema that have native modules, in the order in which
  \<^verbatim>\<open>Object.keys(schema.modules)\<close> visits them (the \<^verbatim>\<open>map\<close> and \<^verbatim>\<open>filter(Boolean)\<close> of
  the source).\<close>

definition nativeModuleGroups :: "SchemaType \<Rightarrow> NativeModuleShape jsobject list" where
  "nativeModuleGroups schema =
     List.map_filter
       (\<lambda>moduleName. case map_of (modules schema) moduleName of
                        None \<Rightarrow> None
                      | Some m \<Rightarrow> nativeModules m)
       (objectKeys (modules schema))"

text \<open>The constant \<^verbatim>\<open>nativeModules\<close> of \<^verbatim>\<open>generate\<close>: the groups reduced with
  \<^verbatim>\<open>Object.assign\<close> into one object, starting from the empty object.\<close>

definition flattenNativeModules :: "SchemaType \<Rightarrow> NativeModuleShape jsobject" where
  "flattenNativeModules schema = foldl objectAssign [] (nativeModuleGroups schema)"

text \<open>The entry of the registration table for one method: the arrow function mapped over
  the methods for \<^verbatim>\<open>::_PROPERTIES_MAP_::\<close>.\<close>

definition propertiesMapEntry :: "NativeModuleMethod \<Rightarrow> string" where
  \<open>propertiesMapEntry property =
     (let returnType = returnTypeAnnotation (method_typeAnnotation property)
      in if method_name property = ''getConstants''
            \<and> type returnType = ''ObjectTypeAnnotation''
            \<and> (case properties returnType of None \<Rightarrow> False | Some ps \<Rightarrow> length ps = 0)
         then []
         else replaceAll ''::_ARGS_COUNT_::''
                (numberToString (length (params (method_typeAnnotation property))))
                (replaceAll ''::_PROPERTY_NAME_::'' (method_name property) propertyDefTemplate))\<close>

text \<open>The text of one module: the arrow function mapped over the names of the flattened
  modules. A name returned by \<^verbatim>\<open>Object.keys\<close> is always found; destructuring the missing
  value would be a \<^verbatim>\<open>TypeError\<close>.\<close>

definition moduleText :: "NativeModuleShape jsobject \<Rightarrow> string \<Rightarrow> string result" where
  \<open>moduleText flattened moduleName =
     (case map_of flattened moduleName of
        None \<Rightarrow> Inl (Error ''TypeError: Cannot destructure property of undefined'')
      | Some shape \<Rightarrow>
          bind (mapResult (\<lambda>property. translateMethodForImplementation property (aliases shape))
                  (module_properties shape))
            (\<lambda>thunks.
               let translatedMethods = join ''\<newline>'' thunks
               in Inr (replaceAll ''::_MODULE_NAME_::'' moduleName
                         (replaceFirst ''::_PROPERTIES_MAP_::''
                            (join ''\<newline>'' (map propertiesMapEntry (module_properties shape)))
                            (replaceAll ''::_TURBOMODULE_METHOD_INVOKERS_::'' translatedMethods
                               moduleTemplate)))))\<close>

definition moduleLookup :: "NativeModuleShape jsobject \<Rightarrow> string" where
  \<open>moduleLookup flattened =
     join ''\<newline>''
       (map (\<lambda>moduleName. replaceAll ''::_MODULE_NAME_::'' moduleName oneModuleLookupTemplate)
          (objectKeys flattened))\<close>

text \<open>The result is the \<^verbatim>\<open>Map\<close> with its one entry, the file name and the file's text.\<close>

definition generate :: "string \<Rightarrow> SchemaType \<Rightarrow> string \<Rightarrow> (string \<times> string) list result" where
  \<open>generate libraryName schema moduleSpecName =
     (let flattened = flattenNativeModules schema
      in bind (mapResult (moduleText flattened) (objectKeys flattened))
           (\<lambda>moduleTexts.
              let fileName = moduleSpecName @ ''-generated.cpp'';
                  replacedTemplate =
                    replaceAll ''::_INCLUDE_::'' (''"'' @ moduleSpecName @ ''.h"'')
                      (replaceAll ''::_MODULE_LOOKUP_::'' (moduleLookup flattened)
                         (replaceAll ''::_LIBRARY_NAME_::'' libraryName
                            (replaceAll ''::_MODULES_::'' (join ''\<newline>'' moduleTexts) template)))
              in Inr [(fileName, replacedTemplate)]))\<close>

subsection \<open>The order of first encounter\<close>

text \<open>
  The notion of the specification against which the order of the flattened modules is
  compared: the elements of a sequence in the order in which each is met for the first
  time. It is not part of the source.
\<close>

fun firstEncounterFrom :: "'a list \<Rightarrow> 'a list \<Rightarrow> 'a list" where
  "firstEncounterFrom seen [] = []"
| "firstEncounterFrom seen (x # xs) =
     (if x \<in> set seen then firstEncounterFrom seen xs
      else x # firstEncounterFrom (x # seen) xs)"

definition firstEncounterOrder :: "'a list \<Rightarrow> 'a list" where
  "firstEncounterOrder xs = firstEncounterFrom [] xs"

subsection \<open>Example schemas\<close>

text \<open>The method \<^verbatim>\<open>add(alpha: number, beta: number): number\<close>.\<close>

definition addMethod :: NativeModuleMethod where
  "addMethod =
     \<lparr>method_name = ''add'',
      method_typeAnnotation =
        \<lparr>params = [\<lparr>param_name = ''alpha'', param_nullable = False,
                     param_typeAnnotation = TypeAnnotation ''NumberTypeAnnotation'' [] False None\<rparr>,
                   \<lparr>param_name = ''beta'', param_nullable = False,
                     param_typeAnnotation = TypeAnnotation ''NumberTypeAnnotation'' [] False None\<rparr>],
         returnTypeAnnotation = TypeAnnotation ''NumberTypeAnnotation'' [] False None\<rparr>\<rparr>"

text \<open>One group with one module \<^verbatim>\<open>Calc\<close>, whose only method is \<^verbatim>\<open>add\<close>.\<close>

definition calcSchema :: SchemaType where
  "calcSchema =
     \<lparr>modules =
        [(''NativeCalc'',
          \<lparr>nativeModules =
             Some [(''Calc'', \<lparr>aliases = [], module_properties = [addMethod]\<rparr>)]\<rparr>)]\<rparr>"

text \<open>Two groups that both define a module \<^verbatim>\<open>Calc\<close>: the first without methods, the
  second with the method \<^verbatim>\<open>add\<close>.\<close>

definition overwriteSchema :: SchemaType where
  "overwriteSchema =
     \<lparr>modules =
        [(''NativeCalc'',
          \<lparr>nativeModules =
             Some [(''Calc'', \<lparr>aliases = [], module_properties = []\<rparr>),
                   (''Log'', \<lparr>aliases = [], module_properties = []\<rparr>)]\<rparr>),
         (''NativeNet'',
          \<lparr>nativeModules =
             Some [(''Net'', \<lparr>aliases = [], module_properties = []\<rparr>),
                   (''Calc'', \<lparr>aliases = [], module_properties = [addMethod]\<rparr>)]\<rparr>)]\<rparr>"

text \<open>Two groups that both define a module \<^verbatim>\<open>Calc\<close>; the first also has a module \<^verbatim>\<open>B\<close>,
  the second a module \<^verbatim>\<open>7\<close>.\<close>

definition indexNameSchema :: SchemaType where
  "indexNameSchema =
     \<lparr>modules =
        [(''NativeB'',
          \<lparr>nativeModules =
             Some [(''B'', \<lparr>aliases = [], module_properties = []\<rparr>),
                   (''Calc'', \<lparr>aliases = [], module_properties = []\<rparr>)]\<rparr>),
         (''Native7'',
          \<lparr>nativeModules =
             Some [(''7'', \<lparr>aliases = [], module_properties = []\<rparr>),
                   (''Calc'', \<lparr>aliases = [], module_properties = [addMethod]\<rparr>)]\<rparr>)]\<rparr>"

text \<open>A group with a module \<^verbatim>\<open>Calc\<close> and a module whose name is \<^verbatim>\<open>__proto__\<close>.\<close>

definition protoNameSchema :: SchemaType where
  "protoNameSchema =
     \<lparr>modules =
        [(''NativeCalc'',
          \<lparr>nativeModules =
             Some [(''__proto__'', \<lparr>aliases = [], module_properties = [addMethod]\<rparr>),
                   (''Calc'', \<lparr>aliases = [], module_properties = []\<rparr>)]\<rparr>)]\<rparr>"

section \<open>Properties\<close>

subsection \<open>Auxiliary facts\<close>

lemma join_Cons: "join sep (x # xs) = (if xs = [] then x else x @ sep @ join sep xs)"
  by (cases xs) simp_all

lemma join_empty_separator: "join [] xs = concat xs"
  by (induction xs) (simp_all add: join_Cons)

lemma getSubstitution_no_dollar:
  "CHR ''$'' \<notin> set repl \<Longrightarrow> getSubstitution matched preceding following repl = repl"
  by (induction matched preceding following repl rule: getSubstitution.induct) auto

text \<open>
  Every placeholder starts with a colon. The next four rules evaluate a replacement along
  a text without going through the conditional of the defining equation: a character
  other than a colon is passed over, a colon is passed over when the rest of the
  placeholder does not follow, a placeholder is replaced, and a stretch of text without
  any colon is passed over as a whole.
\<close>

lemma replaceAllFrom_skip:
  "c \<noteq> CHR '':'' \<Longrightarrow>
   replaceAllFrom (CHR '':'' # p) repl rb (c # cs) = c # replaceAllFrom (CHR '':'' # p) repl (c # rb) cs"
  by simp

lemma replaceAllFrom_nomatch:
  "\<not> prefix p cs \<Longrightarrow>
   replaceAllFrom (CHR '':'' # p) repl rb (CHR '':'' # cs)
     = CHR '':'' # replaceAllFrom (CHR '':'' # p) repl (CHR '':'' # rb) cs"
  by simp

lemma replaceAllFrom_match:
  "prefix p cs \<Longrightarrow> CHR ''$'' \<notin> set repl \<Longrightarrow>
   replaceAllFrom (CHR '':'' # p) repl rb (CHR '':'' # cs)
     = repl @ replaceAllFrom (CHR '':'' # p) repl (rev p @ CHR '':'' # rb) (drop (length p) cs)"
  by (simp add: getSubstitution_no_dollar)

lemma replaceAllFrom_no_colon:
  "CHR '':'' \<notin> set u \<Longrightarrow>
   replaceAllFrom (CHR '':'' # p) repl rb (u @ v)
     = u @ replaceAllFrom (CHR '':'' # p) repl (rev u @ rb) v"
  by (induction u arbitrary: rb) auto

lemma replaceFirstFrom_skip:
  "c \<noteq> CHR '':'' \<Longrightarrow>
   replaceFirstFrom (CHR '':'' # p) repl rb (c # cs)
     = c # replaceFirstFrom (CHR '':'' # p) repl (c # rb) cs"
  by simp

lemma replaceFirstFrom_nomatch:
  "\<not> prefix p cs \<Longrightarrow>
   replaceFirstFrom (CHR '':'' # p) repl rb (CHR '':'' # cs)
     = CHR '':'' # replaceFirstFrom (CHR '':'' # p) repl (CHR '':'' # rb) cs"
  by simp

lemma replaceFirstFrom_match:
  "prefix p cs \<Longrightarrow> CHR ''$'' \<notin> set repl \<Longrightarrow>
   replaceFirstFrom (CHR '':'' # p) repl rb (CHR '':'' # cs) = repl @ drop (length p) cs"
  by (simp add: getSubstitution_no_dollar)

lemma replaceFirstFrom_no_colon:
  "CHR '':'' \<notin> set u \<Longrightarrow>
   replaceFirstFrom (CHR '':'' # p) repl rb (u @ v)
     = u @ replaceFirstFrom (CHR '':'' # p) repl (rev u @ rb) v"
  by (induction u arbitrary: rb) auto

declare replaceAllFrom.simps(2) [simp del] replaceFirstFrom.simps(2) [simp del]

lemmas replace_eval =
  replaceAll_def replaceAllFrom_skip replaceAllFrom_nomatch replaceAllFrom_match
  replaceAllFrom_no_colon
  replaceFirst_def replaceFirstFrom_skip replaceFirstFrom_nomatch replaceFirstFrom_match
  replaceFirstFrom_no_colon

lemmas template_defs =
  propertyTemplate_def propertyHeaderTemplate_def propertyCastTemplate_def

lemma thunk_text:
  assumes "CHR '':'' \<notin> set nm" and "CHR ''$'' \<notin> set nm" and "CHR ''$'' \<notin> set sig"
    and "CHR '':'' \<notin> set kind" and "CHR ''$'' \<notin> set kind"
  shows \<open>replaceAll ''::_SIGNATURE_::'' sig
           (replaceAll ''::_ARGS_::'' args
              (replaceAll ''::_PROPERTY_NAME_::'' nm
                 (replaceAll ''::_KIND_::'' kind propertyTemplate)))
         = ''\<newline>static facebook::jsi::Value __hostFunction_Native::_MODULE_NAME_::SpecJSI_'' @ nm
           @ ''(facebook::jsi::Runtime& rt, TurboModule &turboModule, const facebook::jsi::Value* args, size_t count) {\<newline>''
           @ ''  return static_cast<JavaTurboModule &>(turboModule).invokeJavaMethod(rt, '' @ kind
           @ '', "'' @ nm @ ''", "'' @ sig @ ''", args, count);\<newline>}''\<close>
proof -
  have k: \<open>replaceAll ''::_KIND_::'' kind propertyTemplate
         = ''\<newline>static facebook::jsi::Value __hostFunction_Native::_MODULE_NAME_::SpecJSI_::_PROPERTY_NAME_::''
           @ ''(facebook::jsi::Runtime& rt, TurboModule &turboModule, const facebook::jsi::Value* args, size_t count) {\<newline>''
           @ ''  return static_cast<JavaTurboModule &>(turboModule).invokeJavaMethod(rt, '' @ kind
           @ '', "::_PROPERTY_NAME_::", "::_SIGNATURE_::", args, count);\<newline>}''\<close>
    using assms by (simp add: replace_eval template_defs)
  have n: \<open>replaceAll ''::_PROPERTY_NAME_::'' nm
           (replaceAll ''::_KIND_::'' kind propertyTemplate)
         = ''\<newline>static facebook::jsi::Value __hostFunction_Native::_MODULE_NAME_::SpecJSI_'' @ nm
           @ ''(facebook::jsi::Runtime& rt, TurboModule &turboModule, const facebook::jsi::Value* args, size_t count) {\<newline>''
           @ ''  return static_cast<JavaTurboModule &>(turboModule).invokeJavaMethod(rt, '' @ kind
           @ '', "'' @ nm @ ''", "::_SIGNATURE_::", args, count);\<newline>}''\<close>
    unfolding k using assms by (simp add: replace_eval)
  have a: \<open>replaceAll ''::_ARGS_::'' args
           (replaceAll ''::_PROPERTY_NAME_::'' nm
             (replaceAll ''::_KIND_::'' kind propertyTemplate))
         = ''\<newline>static facebook::jsi::Value __hostFunction_Native::_MODULE_NAME_::SpecJSI_'' @ nm
           @ ''(facebook::jsi::Runtime& rt, TurboModule &turboModule, const facebook::jsi::Value* args, size_t count) {\<newline>''
           @ ''  return static_cast<JavaTurboModule &>(turboModule).invokeJavaMethod(rt, '' @ kind
           @ '', "'' @ nm @ ''", "::_SIGNATURE_::", args, count);\<newline>}''\<close>
    unfolding n using assms by (simp add: replace_eval)
  show ?thesis
    unfolding a using assms by (simp add: replace_eval)
qed

lemma kind_chars:
  "translateReturnTypeToKind ta = Inr kind \<Longrightarrow> CHR '':'' \<notin> set kind \<and> CHR ''$'' \<notin> set kind"
  unfolding translateReturnTypeToKind_def by (auto split: if_splits)

lemma param_token_no_dollar:
  "translateParamTypeToJniType p aliasTable = Inr t \<Longrightarrow> CHR ''$'' \<notin> set t"
  unfolding translateParamTypeToJniType_def bind_def by (auto split: if_splits sum.splits)

lemma return_token_no_dollar:
  "translateReturnTypeToJniType ta = Inr t \<Longrightarrow> CHR ''$'' \<notin> set t"
  unfolding translateReturnTypeToJniType_def by (auto split: if_splits)

lemma mapResult_Inr:
  "mapResult f xs = Inr ys \<Longrightarrow> list_all2 (\<lambda>x y. f x = Inr y) xs ys"
  by (induction xs arbitrary: ys) (auto split: sum.splits)

lemma param_tokens_no_dollar:
  assumes "mapResult (\<lambda>t. translateParamTypeToJniType t aliasTable) ps = Inr tokens"
    and "t \<in> set tokens"
  shows "CHR ''$'' \<notin> set t"
proof -
  have "list_all2 (\<lambda>x y. translateParamTypeToJniType x aliasTable = Inr y) ps tokens"
    using assms(1) by (rule mapResult_Inr)
  then have "\<forall>t \<in> set tokens. CHR ''$'' \<notin> set t"
    by (induction rule: list_all2_induct) (auto dest: param_token_no_dollar)
  with assms(2) show ?thesis by blast
qed

lemma signature_no_dollar:
  assumes "translateMethodTypeToJniSignature m aliasTable = Inr sig"
  shows "CHR ''$'' \<notin> set sig"
  using assms
  unfolding translateMethodTypeToJniSignature_def bind_def Let_def
  by (auto simp: join_empty_separator split: sum.splits if_splits
      dest: param_tokens_no_dollar return_token_no_dollar)

text \<open>
  Flattening: the reduction with \<^verbatim>\<open>Object.assign\<close> is one pass of updates over the own
  properties of all the groups, each group's properties in the order of its keys.
\<close>

lemma objectKeys_plain:
  assumes "\<forall>k \<in> set (map fst obj). \<not> isArrayIndex k"
  shows "objectKeys obj = map fst obj"
proof -
  have "filter isArrayIndex (map fst obj) = []"
    using assms by (simp add: filter_empty_conv)
  moreover have "filter (\<lambda>k. \<not> isArrayIndex k) (map fst obj) = map fst obj"
    using assms by (simp add: filter_id_conv)
  ultimately show ?thesis by (simp add: objectKeys_def)
qed

lemma set_objectKeys: "set (objectKeys obj) = fst ` set obj"
  by (auto simp: objectKeys_def)

lemma objectAssign_updates:
  "objectAssign target source
     = fold (\<lambda>(k, v). AList.update k v)
         (map (\<lambda>k. (k, the (map_of source k)))
            (filter (\<lambda>k. k \<noteq> ''__proto__'') (objectKeys source))) target"
proof -
  have "fold (\<lambda>key acc. if key = ''__proto__'' then acc
                        else case map_of source key of
                               None \<Rightarrow> acc | Some v \<Rightarrow> AList.update key v acc)
          (objectKeys source) target
        = fold (\<lambda>key. if key \<noteq> ''__proto__'' then AList.update key (the (map_of source key))
                       else id)
            (objectKeys source) target"
  proof (rule fold_cong)
    fix key
    assume "key \<in> set (objectKeys source)"
    then have "map_of source key \<noteq> None"
      by (simp add: set_objectKeys map_of_eq_None_iff)
    then show "(\<lambda>acc. if key = ''__proto__'' then acc
                      else case map_of source key of
                             None \<Rightarrow> acc | Some v \<Rightarrow> AList.update key v acc)
                = (if key \<noteq> ''__proto__'' then AList.update key (the (map_of source key)) else id)"
      by auto
  qed simp_all
  then show ?thesis
    by (simp add: objectAssign_def foldl_conv_fold fold_map comp_def fold_filter)
qed

lemma flatten_updates:
  "foldl objectAssign acc gs
     = fold (\<lambda>(k, v). AList.update k v)
         (concat (map (\<lambda>g. map (\<lambda>k. (k, the (map_of g k)))
                               (filter (\<lambda>k. k \<noteq> ''__proto__'') (objectKeys g))) gs)) acc"
  by (induction gs arbitrary: acc) (simp_all add: objectAssign_updates)

lemma firstEncounterFrom_seen:
  "set seen = set seen' \<Longrightarrow> firstEncounterFrom seen xs = firstEncounterFrom seen' xs"
proof (induction xs arbitrary: seen seen')
  case Nil
  then show ?case by simp
next
  case (Cons x xs)
  have "firstEncounterFrom (x # seen) xs = firstEncounterFrom (x # seen') xs"
    by (rule Cons.IH) (simp add: Cons.prems)
  moreover have "firstEncounterFrom seen xs = firstEncounterFrom seen' xs"
    by (rule Cons.IH) (rule Cons.prems)
  ultimately show ?case using Cons.prems by simp
qed

lemma set_firstEncounterFrom: "set (firstEncounterFrom seen xs) \<subseteq> set xs"
  by (induction xs arbitrary: seen) auto

lemma keys_of_updates:
  "map fst (fold (\<lambda>(k, v). AList.update k v) kvs acc)
     = map fst acc @ firstEncounterFrom (map fst acc) (map fst kvs)"
proof (induction kvs arbitrary: acc)
  case Nil
  then show ?case by simp
next
  case (Cons kv kvs)
  obtain k v where kv: "kv = (k, v)" by (cases kv)
  show ?case
  proof (cases "k \<in> set (map fst acc)")
    case True
    then show ?thesis
      using Cons.IH [of "AList.update k v acc"] by (simp add: kv update_keys)
  next
    case False
    have "firstEncounterFrom (map fst acc @ [k]) (map fst kvs)
            = firstEncounterFrom (k # map fst acc) (map fst kvs)"
      by (rule firstEncounterFrom_seen) auto
    then show ?thesis
      using False Cons.IH [of "AList.update k v acc"] by (simp add: kv update_keys)
  qed
qed

lemma map_of_updates:
  "map_of (fold (\<lambda>(k, v). AList.update k v) kvs acc) = map_of acc ++ map_of (rev kvs)"
proof (induction kvs arbitrary: acc)
  case Nil
  then show ?case by simp
next
  case (Cons kv kvs)
  obtain k v where kv: "kv = (k, v)" by (cases kv)
  have "map_of (fold (\<lambda>(k, v). AList.update k v) kvs (AList.update k v acc))
          = map_of (AList.update k v acc) ++ map_of (rev kvs)"
    by (rule Cons.IH)
  moreover have "map_of (AList.update k v acc) ++ map_of (rev kvs)
          = map_of acc ++ map_of (rev kvs @ [(k, v)])"
    by (rule ext) (simp add: update_conv' map_add_def split: option.splits)
  ultimately show ?case by (simp add: kv)
qed

lemma map_of_rev_own_properties:
  assumes "k \<in> fst ` set g" and "k \<noteq> ''__proto__''"
  shows "map_of (rev (map (\<lambda>k. (k, the (map_of g k)))
                       (filter (\<lambda>k. k \<noteq> ''__proto__'') (objectKeys g)))) k
         = map_of g k"
proof -
  let ?ks = "filter (\<lambda>k. k \<noteq> ''__proto__'') (objectKeys g)"
  have "map_of (map (\<lambda>k. (k, the (map_of g k))) (rev ?ks)) k
          = ((Some \<circ> (\<lambda>k. the (map_of g k))) |` set (rev ?ks)) k"
    by (simp only: map_of_map_restrict)
  moreover have "map_of g k \<noteq> None"
    using assms by (simp add: map_of_eq_None_iff)
  moreover have "k \<in> set ?ks"
    using assms by (simp add: set_objectKeys)
  ultimately show ?thesis
    by (auto simp: rev_map restrict_map_def)
qed

lemma numberToString_digits: "set (numberToString n) \<subseteq> set ''0123456789''"
proof (induction n rule: numberToString.induct)
  case (1 n)
  have digit: "''0123456789'' ! d \<in> set ''0123456789''" if "d < 10" for d :: nat
    using that by (intro nth_mem) (simp add: eval_nat_numeral)
  show ?case
  proof (cases "n < 10")
    case True
    then show ?thesis
      using digit [of n] by (subst numberToString.simps) simp
  next
    case False
    then show ?thesis
      using "1.IH" digit [of "n mod 10"] by (subst numberToString.simps) simp
  qed
qed

lemma numberToString_no_dollar: "CHR ''$'' \<notin> set (numberToString n)"
  using numberToString_digits [of n] by auto

lemma entry_text:
  assumes "CHR '':'' \<notin> set nm" and "CHR ''$'' \<notin> set nm" and "CHR ''$'' \<notin> set cnt"
  shows \<open>replaceAll ''::_ARGS_COUNT_::'' cnt
           (replaceAll ''::_PROPERTY_NAME_::'' nm propertyDefTemplate)
         = ''  methodMap_["'' @ nm @ ''"] = MethodMetadata {'' @ cnt
           @ '', __hostFunction_Native::_MODULE_NAME_::SpecJSI_'' @ nm @ ''};''\<close>
proof -
  have n: \<open>replaceAll ''::_PROPERTY_NAME_::'' nm propertyDefTemplate
         = ''  methodMap_["'' @ nm @ ''"] = MethodMetadata {::_ARGS_COUNT_::''
           @ '', __hostFunction_Native::_MODULE_NAME_::SpecJSI_'' @ nm @ ''};''\<close>
    using assms by (simp add: replace_eval propertyDefTemplate_def)
  show ?thesis
    unfolding n using assms by (simp add: replace_eval)
qed

lemma lookup_block_text:
  assumes "CHR ''$'' \<notin> set nm"
  shows \<open>replaceAll ''::_MODULE_NAME_::'' nm oneModuleLookupTemplate
         = ''  if (moduleName == "'' @ nm @ ''") {\<newline>''
           @ ''    return std::make_shared<Native'' @ nm @ ''SpecJSI>(params);\<newline>''
           @ ''  }''\<close>
  using assms by (simp add: replace_eval oneModuleLookupTemplate_def)

lemmas object_eval =
  objectKeys_def isArrayIndex_def isDigit_def decimalValue_def digitValue_def objectAssign_def
  nativeModuleGroups_def flattenNativeModules_def

subsection \<open>The kind translator\<close>

text \<open>
  C2. \<^const>\<open>translateReturnTypeToKind\<close> returns a kind for every return annotation of the
  closed set: the reserved scalar \<^verbatim>\<open>RootTag\<close> and the four numeric tags give
  \<^verbatim>\<open>NumberKind\<close>, void gives \<^verbatim>\<open>VoidKind\<close>, string \<^verbatim>\<open>StringKind\<close>, boolean \<^verbatim>\<open>BooleanKind\<close>,
  promise \<^verbatim>\<open>PromiseKind\<close>, the generic and the structural object \<^verbatim>\<open>ObjectKind\<close>, array
  \<^verbatim>\<open>ArrayKind\<close>. For every tag outside the closed set, an alias reference among them, it
  throws an error whose message ends with the tag.
\<close>

theorem translateReturnTypeToKind_closed_set:
  \<open>(type ta = ''ReservedFunctionValueTypeAnnotation'' \<and> name ta = ''RootTag''
       \<longrightarrow> translateReturnTypeToKind ta = Inr ''NumberKind'')
   \<and> (type ta \<in> {''NumberTypeAnnotation'', ''DoubleTypeAnnotation'', ''FloatTypeAnnotation'',
                   ''Int32TypeAnnotation''}
       \<longrightarrow> translateReturnTypeToKind ta = Inr ''NumberKind'')
   \<and> (type ta = ''VoidTypeAnnotation'' \<longrightarrow> translateReturnTypeToKind ta = Inr ''VoidKind'')
   \<and> (type ta = ''StringTypeAnnotation'' \<longrightarrow> translateReturnTypeToKind ta = Inr ''StringKind'')
   \<and> (type ta = ''BooleanTypeAnnotation'' \<longrightarrow> translateReturnTypeToKind ta = Inr ''BooleanKind'')
   \<and> (type ta = ''GenericPromiseTypeAnnotation''
       \<longrightarrow> translateReturnTypeToKind ta = Inr ''PromiseKind'')
   \<and> (type ta \<in> {''GenericObjectTypeAnnotation'', ''ObjectTypeAnnotation''}
       \<longrightarrow> translateReturnTypeToKind ta = Inr ''ObjectKind'')
   \<and> (type ta = ''ArrayTypeAnnotation'' \<longrightarrow> translateReturnTypeToKind ta = Inr ''ArrayKind'')
   \<and> (type ta \<notin> {''ReservedFunctionValueTypeAnnotation'', ''VoidTypeAnnotation'',
                   ''StringTypeAnnotation'', ''BooleanTypeAnnotation'', ''NumberTypeAnnotation'',
                   ''DoubleTypeAnnotation'', ''FloatTypeAnnotation'', ''Int32TypeAnnotation'',
                   ''GenericPromiseTypeAnnotation'', ''GenericObjectTypeAnnotation'',
                   ''ObjectTypeAnnotation'', ''ArrayTypeAnnotation''}
       \<longrightarrow> translateReturnTypeToKind ta
             = Inl (Error (''Unknown prop type for returning value, found: '' @ type ta @ ''"'')))
   \<and> (type ta = ''TypeAliasTypeAnnotation''
       \<longrightarrow> translateReturnTypeToKind ta
             = Inl (Error ''Unknown prop type for returning value, found: TypeAliasTypeAnnotation"''))\<close>
  unfolding translateReturnTypeToKind_def by auto

text \<open>The theorem at one annotation of every row, a callback and an alias reference.\<close>

theorem translateReturnTypeToKind_closed_set_witness:
  \<open>translateReturnTypeToKind (TypeAnnotation ''ReservedFunctionValueTypeAnnotation'' ''RootTag'' False None)
     = Inr ''NumberKind''
   \<and> translateReturnTypeToKind (TypeAnnotation ''Int32TypeAnnotation'' [] False None) = Inr ''NumberKind''
   \<and> translateReturnTypeToKind (TypeAnnotation ''VoidTypeAnnotation'' [] False None) = Inr ''VoidKind''
   \<and> translateReturnTypeToKind (TypeAnnotation ''StringTypeAnnotation'' [] True None) = Inr ''StringKind''
   \<and> translateReturnTypeToKind (TypeAnnotation ''BooleanTypeAnnotation'' [] False None) = Inr ''BooleanKind''
   \<and> translateReturnTypeToKind (TypeAnnotation ''GenericPromiseTypeAnnotation'' [] False None)
       = Inr ''PromiseKind''
   \<and> translateReturnTypeToKind (TypeAnnotation ''ObjectTypeAnnotation'' [] False (Some [])) = Inr ''ObjectKind''
   \<and> translateReturnTypeToKind (TypeAnnotation ''ArrayTypeAnnotation'' [] False None) = Inr ''ArrayKind''
   \<and> translateReturnTypeToKind (TypeAnnotation ''FunctionTypeAnnotation'' [] False None)
       = Inl (Error ''Unknown prop type for returning value, found: FunctionTypeAnnotation"'')
   \<and> translateReturnTypeToKind (TypeAnnotation ''TypeAliasTypeAnnotation'' ''Point'' False None)
       = Inl (Error ''Unknown prop type for returning value, found: TypeAliasTypeAnnotation"'')\<close>
  using translateReturnTypeToKind_closed_set
          [of \<open>TypeAnnotation ''ReservedFunctionValueTypeAnnotation'' ''RootTag'' False None\<close>]
        translateReturnTypeToKind_closed_set [of \<open>TypeAnnotation ''Int32TypeAnnotation'' [] False None\<close>]
        translateReturnTypeToKind_closed_set [of \<open>TypeAnnotation ''VoidTypeAnnotation'' [] False None\<close>]
        translateReturnTypeToKind_closed_set [of \<open>TypeAnnotation ''StringTypeAnnotation'' [] True None\<close>]
        translateReturnTypeToKind_closed_set [of \<open>TypeAnnotation ''BooleanTypeAnnotation'' [] False None\<close>]
        translateReturnTypeToKind_closed_set
          [of \<open>TypeAnnotation ''GenericPromiseTypeAnnotation'' [] False None\<close>]
        translateReturnTypeToKind_closed_set
          [of \<open>TypeAnnotation ''ObjectTypeAnnotation'' [] False (Some [])\<close>]
        translateReturnTypeToKind_closed_set [of \<open>TypeAnnotation ''ArrayTypeAnnotation'' [] False None\<close>]
        translateReturnTypeToKind_closed_set [of \<open>TypeAnnotation ''FunctionTypeAnnotation'' [] False None\<close>]
        translateReturnTypeToKind_closed_set
          [of \<open>TypeAnnotation ''TypeAliasTypeAnnotation'' ''Point'' False None\<close>]
  by simp

subsection \<open>The signature builder\<close>

text \<open>
  C1. A method named \<^verbatim>\<open>fetch\<close> with exactly one non-nullable string parameter and a promise
  return annotation has the descriptor
  \<^verbatim>\<open>(Ljava/lang/String;Lcom/facebook/react/bridge/Promise;)V\<close>: the effective return is
  void and the promise token is appended after the declared parameter. Its entry of the
  registration table records the parameter count 1, the count of declared parameters.
  (The entry still holds the placeholder of the module name, which is filled in when the
  module is assembled.)
\<close>

theorem fetch_descriptor_and_arity:
  assumes "method_name m = ''fetch''"
    and "params (method_typeAnnotation m) = [p]"
    and "type (param_typeAnnotation p) = ''StringTypeAnnotation''"
    and "\<not> param_nullable p"
    and "type (returnTypeAnnotation (method_typeAnnotation m)) = ''GenericPromiseTypeAnnotation''"
  shows \<open>translateMethodTypeToJniSignature m aliasTable
           = Inr ''(Ljava/lang/String;Lcom/facebook/react/bridge/Promise;)V''
         \<and> propertiesMapEntry m
           = ''  methodMap_["fetch"] = MethodMetadata {1, __hostFunction_Native::_MODULE_NAME_::SpecJSI_fetch};''\<close>
proof
  show \<open>translateMethodTypeToJniSignature m aliasTable
           = Inr ''(Ljava/lang/String;Lcom/facebook/react/bridge/Promise;)V''\<close>
    using assms
    by (simp add: translateMethodTypeToJniSignature_def translateParamTypeToJniType_def
        translateReturnTypeToJniType_def bind_def)
  show \<open>propertiesMapEntry m
           = ''  methodMap_["fetch"] = MethodMetadata {1, __hostFunction_Native::_MODULE_NAME_::SpecJSI_fetch};''\<close>
    using assms
    by (simp add: propertiesMapEntry_def propertyDefTemplate_def replace_eval
        numberToString.simps)
qed


text \<open>The theorem at \<^verbatim>\<open>fetch(url: string): Promise\<close>.\<close>

theorem fetch_descriptor_and_arity_witness:
  \<open>translateMethodTypeToJniSignature
       \<lparr>method_name = ''fetch'',
        method_typeAnnotation =
          \<lparr>params = [\<lparr>param_name = ''url'', param_nullable = False,
                       param_typeAnnotation = TypeAnnotation ''StringTypeAnnotation'' [] False None\<rparr>],
           returnTypeAnnotation = TypeAnnotation ''GenericPromiseTypeAnnotation'' [] False None\<rparr>\<rparr>
       []
     = Inr ''(Ljava/lang/String;Lcom/facebook/react/bridge/Promise;)V''
   \<and> propertiesMapEntry
       \<lparr>method_name = ''fetch'',
        method_typeAnnotation =
          \<lparr>params = [\<lparr>param_name = ''url'', param_nullable = False,
                       param_typeAnnotation = TypeAnnotation ''StringTypeAnnotation'' [] False None\<rparr>],
           returnTypeAnnotation = TypeAnnotation ''GenericPromiseTypeAnnotation'' [] False None\<rparr>\<rparr>
     = ''  methodMap_["fetch"] = MethodMetadata {1, __hostFunction_Native::_MODULE_NAME_::SpecJSI_fetch};''\<close>
  using fetch_descriptor_and_arity
          [of \<open>\<lparr>method_name = ''fetch'',
                 method_typeAnnotation =
                   \<lparr>params = [\<lparr>param_name = ''url'', param_nullable = False,
                                param_typeAnnotation =
                                  TypeAnnotation ''StringTypeAnnotation'' [] False None\<rparr>],
                    returnTypeAnnotation =
                      TypeAnnotation ''GenericPromiseTypeAnnotation'' [] False None\<rparr>\<rparr>\<close>
              \<open>\<lparr>param_name = ''url'', param_nullable = False,
                 param_typeAnnotation = TypeAnnotation ''StringTypeAnnotation'' [] False None\<rparr>\<close>
              \<open>[]\<close>]
  by simp

subsection \<open>The ABI-type translators\<close>

text \<open>
  C3. Every reference token of the translators is a JNI type descriptor of the form
  \<^verbatim>\<open>L<class>;\<close>, except the one for a nullable boolean: both translators return
  \<^verbatim>\<open>Ljava/lang/Boolean\<close> without the terminating semicolon, where the sibling branch for a
  nullable number returns \<^verbatim>\<open>Ljava/lang/Double;\<close>. The token is not a type descriptor of the
  native ABI, and a descriptor built from it, such as \<^verbatim>\<open>(Ljava/lang/BooleanD)V\<close> for
  \<^verbatim>\<open>setFlag(flag: ?boolean, count: number): void\<close>, is malformed. The theorem evaluates the
  code at these inputs.
\<close>

theorem boxed_boolean_token_unterminated:
  \<open>translateParamTypeToJniType
       \<lparr>param_name = ''flag'', param_nullable = True,
        param_typeAnnotation = TypeAnnotation ''BooleanTypeAnnotation'' [] False None\<rparr> []
     = Inr ''Ljava/lang/Boolean''
   \<and> translateReturnTypeToJniType (TypeAnnotation ''BooleanTypeAnnotation'' [] True None)
     = Inr ''Ljava/lang/Boolean''
   \<and> translateParamTypeToJniType
       \<lparr>param_name = ''count'', param_nullable = True,
        param_typeAnnotation = TypeAnnotation ''NumberTypeAnnotation'' [] False None\<rparr> []
     = Inr ''Ljava/lang/Double;''
   \<and> translateMethodTypeToJniSignature
       \<lparr>method_name = ''setFlag'',
        method_typeAnnotation =
          \<lparr>params = [\<lparr>param_name = ''flag'', param_nullable = True,
                       param_typeAnnotation = TypeAnnotation ''BooleanTypeAnnotation'' [] False None\<rparr>,
                     \<lparr>param_name = ''count'', param_nullable = False,
                       param_typeAnnotation = TypeAnnotation ''NumberTypeAnnotation'' [] False None\<rparr>],
           returnTypeAnnotation = TypeAnnotation ''VoidTypeAnnotation'' [] False None\<rparr>\<rparr> []
     = Inr ''(Ljava/lang/BooleanD)V''\<close>
  by (simp add: translateMethodTypeToJniSignature_def translateParamTypeToJniType_def
      translateReturnTypeToJniType_def bind_def)

text \<open>
  C4. When the parameters translate to \<open>tokens\<close>, the descriptor of a method named
  \<^verbatim>\<open>getConstants\<close> ends with the return token \<^verbatim>\<open>Ljava/util/Map;\<close> whatever its declared
  return annotation is (the return annotation is not even translated, so an unsupported
  one does not fail); the descriptor of a method with any other name ends with the
  translation of the effective return annotation (void for a promise, the declared
  annotation otherwise), and fails where that translation fails.
\<close>

theorem signature_return_token:
  assumes "mapResult (\<lambda>t. translateParamTypeToJniType t aliasTable)
             (params (method_typeAnnotation m)) = Inr tokens"
  shows \<open>(method_name m = ''getConstants'' \<longrightarrow>
            translateMethodTypeToJniSignature m aliasTable
              = Inr (''('' @ concat tokens
                     @ (if type (returnTypeAnnotation (method_typeAnnotation m))
                            = ''GenericPromiseTypeAnnotation''
                        then ''Lcom/facebook/react/bridge/Promise;'' else [])
                     @ '')'' @ ''Ljava/util/Map;''))
         \<and> (method_name m \<noteq> ''getConstants'' \<longrightarrow>
            translateMethodTypeToJniSignature m aliasTable
              = (case translateReturnTypeToJniType
                        (if type (returnTypeAnnotation (method_typeAnnotation m))
                              = ''GenericPromiseTypeAnnotation''
                         then TypeAnnotation ''VoidTypeAnnotation'' [] False None
                         else returnTypeAnnotation (method_typeAnnotation m)) of
                   Inl e \<Rightarrow> Inl e
                 | Inr returnToken \<Rightarrow>
                     Inr (''('' @ concat tokens
                          @ (if type (returnTypeAnnotation (method_typeAnnotation m))
                                 = ''GenericPromiseTypeAnnotation''
                             then ''Lcom/facebook/react/bridge/Promise;'' else [])
                          @ '')'' @ returnToken)))\<close>
proof -
  have promise: \<open>type ta = ''GenericPromiseTypeAnnotation''
      \<Longrightarrow> translateReturnTypeToJniType ta = Inr ''Lcom/facebook/react/bridge/Promise;''\<close> for ta
    by (simp add: translateReturnTypeToJniType_def)
  show ?thesis
    using assms
    by (auto simp: translateMethodTypeToJniSignature_def bind_def Let_def promise
        join_empty_separator split: sum.splits)
qed


text \<open>The theorem at \<^verbatim>\<open>getConstants(): string\<close> and at \<^verbatim>\<open>add(a: number, b: number): number\<close>.\<close>

theorem signature_return_token_witness:
  \<open>translateMethodTypeToJniSignature
       \<lparr>method_name = ''getConstants'',
        method_typeAnnotation =
          \<lparr>params = [],
           returnTypeAnnotation = TypeAnnotation ''StringTypeAnnotation'' [] False None\<rparr>\<rparr> []
     = Inr ''()Ljava/util/Map;''
   \<and> translateMethodTypeToJniSignature
       \<lparr>method_name = ''add'',
        method_typeAnnotation =
          \<lparr>params = [\<lparr>param_name = ''a'', param_nullable = False,
                       param_typeAnnotation = TypeAnnotation ''NumberTypeAnnotation'' [] False None\<rparr>,
                     \<lparr>param_name = ''b'', param_nullable = False,
                       param_typeAnnotation = TypeAnnotation ''NumberTypeAnnotation'' [] False None\<rparr>],
           returnTypeAnnotation = TypeAnnotation ''NumberTypeAnnotation'' [] False None\<rparr>\<rparr> []
     = Inr ''(DD)D''\<close>
proof
  let ?m = \<open>\<lparr>method_name = ''getConstants'',
        method_typeAnnotation =
          \<lparr>params = [],
           returnTypeAnnotation = TypeAnnotation ''StringTypeAnnotation'' [] False None\<rparr>\<rparr>\<close>
  have \<open>mapResult (\<lambda>t. translateParamTypeToJniType t []) (params (method_typeAnnotation ?m)) = Inr []\<close>
    by simp
  from signature_return_token [OF this]
  show \<open>translateMethodTypeToJniSignature ?m [] = Inr ''()Ljava/util/Map;''\<close>
    by simp
next
  let ?m = \<open>\<lparr>method_name = ''add'',
        method_typeAnnotation =
          \<lparr>params = [\<lparr>param_name = ''a'', param_nullable = False,
                       param_typeAnnotation = TypeAnnotation ''NumberTypeAnnotation'' [] False None\<rparr>,
                     \<lparr>param_name = ''b'', param_nullable = False,
                       param_typeAnnotation = TypeAnnotation ''NumberTypeAnnotation'' [] False None\<rparr>],
           returnTypeAnnotation = TypeAnnotation ''NumberTypeAnnotation'' [] False None\<rparr>\<rparr>\<close>
  have \<open>mapResult (\<lambda>t. translateParamTypeToJniType t []) (params (method_typeAnnotation ?m))
          = Inr [''D'', ''D'']\<close>
    by (simp add: translateParamTypeToJniType_def bind_def)
  from signature_return_token [OF this]
  show \<open>translateMethodTypeToJniSignature ?m [] = Inr ''(DD)D''\<close>
    by (simp add: translateReturnTypeToJniType_def)
qed

subsection \<open>Alias references\<close>

text \<open>
  C6, as stated, fails in return position: \<^const>\<open>translateReturnTypeToJniType\<close> takes no alias
  table and has no branch for an alias reference, so an alias that the table resolves to a
  boolean is not translated to \<^verbatim>\<open>Z\<close> but rejected, and the signature builder fails with it.
\<close>

theorem alias_in_return_position_counterexample:
  \<open>getTypeAliasTypeAnnotation ''Flag''
       [(''Flag'', TypeAnnotation ''BooleanTypeAnnotation'' [] False None)]
     = Inr (TypeAnnotation ''BooleanTypeAnnotation'' [] False None)
   \<and> translateReturnTypeToJniType (TypeAnnotation ''BooleanTypeAnnotation'' [] False None) = Inr ''Z''
   \<and> translateReturnTypeToJniType (TypeAnnotation ''TypeAliasTypeAnnotation'' ''Flag'' False None)
     = Inl (Error ''Unknown prop type for method return type, found: TypeAliasTypeAnnotation"'')
   \<and> translateMethodTypeToJniSignature
       \<lparr>method_name = ''isOn'',
        method_typeAnnotation =
          \<lparr>params = [],
           returnTypeAnnotation = TypeAnnotation ''TypeAliasTypeAnnotation'' ''Flag'' False None\<rparr>\<rparr>
       [(''Flag'', TypeAnnotation ''BooleanTypeAnnotation'' [] False None)]
     = Inl (Error ''Unknown prop type for method return type, found: TypeAliasTypeAnnotation"'')\<close>
  by (simp add: getTypeAliasTypeAnnotation_def translateReturnTypeToJniType_def
      translateMethodTypeToJniSignature_def bind_def)

text \<open>
  C6, amended. In parameter position an alias reference whose name is in the alias table
  is resolved through the table and translated as the resolved annotation (which is not an
  alias itself), and a name absent from the table is a failure. In return position every
  alias reference fails with the error for an unknown return type.
\<close>

theorem alias_resolved_in_parameter_position_only:
  assumes "type (param_typeAnnotation p) = ''TypeAliasTypeAnnotation''"
  shows \<open>(\<forall>r. map_of aliasTable (name (param_typeAnnotation p)) = Some r
               \<and> type r \<noteq> ''TypeAliasTypeAnnotation''
             \<longrightarrow> translateParamTypeToJniType p aliasTable
                   = translateParamTypeToJniType (p\<lparr>param_typeAnnotation := r\<rparr>) aliasTable)
         \<and> (map_of aliasTable (name (param_typeAnnotation p)) = None
             \<longrightarrow> (\<exists>e. translateParamTypeToJniType p aliasTable = Inl e))
         \<and> (\<forall>ta. type ta = ''TypeAliasTypeAnnotation''
             \<longrightarrow> translateReturnTypeToJniType ta
                   = Inl (Error ''Unknown prop type for method return type, found: TypeAliasTypeAnnotation"''))\<close>
  using assms
  by (simp add: translateParamTypeToJniType_def getTypeAliasTypeAnnotation_def bind_def
      translateReturnTypeToJniType_def)

text \<open>The theorem at a parameter typed by the alias \<^verbatim>\<open>Flag\<close>, with a table that has the alias
  and with one that has not.\<close>

theorem alias_resolved_in_parameter_position_only_witness:
  \<open>translateParamTypeToJniType
       \<lparr>param_name = ''flag'', param_nullable = False,
        param_typeAnnotation = TypeAnnotation ''TypeAliasTypeAnnotation'' ''Flag'' False None\<rparr>
       [(''Flag'', TypeAnnotation ''BooleanTypeAnnotation'' [] False None)]
     = Inr ''Z''
   \<and> (\<exists>e. translateParamTypeToJniType
             \<lparr>param_name = ''flag'', param_nullable = False,
              param_typeAnnotation = TypeAnnotation ''TypeAliasTypeAnnotation'' ''Flag'' False None\<rparr>
             [(''Other'', TypeAnnotation ''BooleanTypeAnnotation'' [] False None)]
           = Inl e)
   \<and> translateReturnTypeToJniType (TypeAnnotation ''TypeAliasTypeAnnotation'' ''Flag'' False None)
     = Inl (Error ''Unknown prop type for method return type, found: TypeAliasTypeAnnotation"'')\<close>
  using alias_resolved_in_parameter_position_only
          [of \<open>\<lparr>param_name = ''flag'', param_nullable = False,
                 param_typeAnnotation = TypeAnnotation ''TypeAliasTypeAnnotation'' ''Flag'' False None\<rparr>\<close>
              \<open>[(''Flag'', TypeAnnotation ''BooleanTypeAnnotation'' [] False None)]\<close>]
        alias_resolved_in_parameter_position_only
          [of \<open>\<lparr>param_name = ''flag'', param_nullable = False,
                 param_typeAnnotation = TypeAnnotation ''TypeAliasTypeAnnotation'' ''Flag'' False None\<rparr>\<close>
              \<open>[(''Other'', TypeAnnotation ''BooleanTypeAnnotation'' [] False None)]\<close>]
  by (simp add: translateParamTypeToJniType_def bind_def)

text \<open>
  C7. A nullable parameter whose annotation is an alias reference that resolves to a
  boolean annotation gets the same token as a nullable parameter with an inline boolean
  annotation: the boxed-boolean token, as the code spells it.
\<close>

theorem alias_to_boolean_same_as_inline:
  assumes "param_nullable p"
    and "type (param_typeAnnotation p) = ''TypeAliasTypeAnnotation''"
    and "getTypeAliasTypeAnnotation (name (param_typeAnnotation p)) aliasTable = Inr r"
    and "type r = ''BooleanTypeAnnotation''"
    and "param_nullable q"
    and "type (param_typeAnnotation q) = ''BooleanTypeAnnotation''"
  shows \<open>translateParamTypeToJniType p aliasTable = translateParamTypeToJniType q aliasTable
         \<and> translateParamTypeToJniType p aliasTable = Inr ''Ljava/lang/Boolean''\<close>
  using assms by (simp add: translateParamTypeToJniType_def bind_def)

text \<open>The theorem at the alias \<^verbatim>\<open>Flag\<close> and the inline annotation.\<close>

theorem alias_to_boolean_same_as_inline_witness:
  \<open>translateParamTypeToJniType
       \<lparr>param_name = ''flag'', param_nullable = True,
        param_typeAnnotation = TypeAnnotation ''TypeAliasTypeAnnotation'' ''Flag'' False None\<rparr>
       [(''Flag'', TypeAnnotation ''BooleanTypeAnnotation'' [] False None)]
     = translateParamTypeToJniType
         \<lparr>param_name = ''flag'', param_nullable = True,
          param_typeAnnotation = TypeAnnotation ''BooleanTypeAnnotation'' [] False None\<rparr>
         [(''Flag'', TypeAnnotation ''BooleanTypeAnnotation'' [] False None)]
   \<and> translateParamTypeToJniType
       \<lparr>param_name = ''flag'', param_nullable = True,
        param_typeAnnotation = TypeAnnotation ''TypeAliasTypeAnnotation'' ''Flag'' False None\<rparr>
       [(''Flag'', TypeAnnotation ''BooleanTypeAnnotation'' [] False None)]
     = Inr ''Ljava/lang/Boolean''\<close>
proof -
  let ?p = \<open>\<lparr>param_name = ''flag'', param_nullable = True,
        param_typeAnnotation = TypeAnnotation ''TypeAliasTypeAnnotation'' ''Flag'' False None\<rparr>\<close>
  let ?q = \<open>\<lparr>param_name = ''flag'', param_nullable = True,
          param_typeAnnotation = TypeAnnotation ''BooleanTypeAnnotation'' [] False None\<rparr>\<close>
  let ?al = \<open>[(''Flag'', TypeAnnotation ''BooleanTypeAnnotation'' [] False None)]\<close>
  let ?r = \<open>TypeAnnotation ''BooleanTypeAnnotation'' [] False None\<close>
  have 1: "param_nullable ?p" by simp
  have 2: "type (param_typeAnnotation ?p) = ''TypeAliasTypeAnnotation''" by simp
  have 3: "getTypeAliasTypeAnnotation (name (param_typeAnnotation ?p)) ?al = Inr ?r"
    by (simp add: getTypeAliasTypeAnnotation_def)
  have 4: "type ?r = ''BooleanTypeAnnotation''" by simp
  have 5: "param_nullable ?q" by simp
  have 6: "type (param_typeAnnotation ?q) = ''BooleanTypeAnnotation''" by simp
  show ?thesis
    by (rule alias_to_boolean_same_as_inline [OF 1 2 3 4 5 6])
qed

subsection \<open>The method emitter\<close>

text \<open>
  C5, as stated, fails for a method \<^verbatim>\<open>getConstants\<close> with a non-empty structural object
  return and a parameter whose annotation the ABI-type translator does not support: the
  emitter builds the descriptor, the translation of the parameter throws, and there is no
  invocation thunk. The entry of the registration table is computed apart from the thunk
  and does not translate the parameters.
\<close>

theorem getConstants_unsupported_parameter_counterexample:
  \<open>translateMethodForImplementation
       \<lparr>method_name = ''getConstants'',
        method_typeAnnotation =
          \<lparr>params = [\<lparr>param_name = ''options'', param_nullable = False,
                       param_typeAnnotation = TypeAnnotation ''AnyTypeAnnotation'' [] False None\<rparr>],
           returnTypeAnnotation =
             TypeAnnotation ''ObjectTypeAnnotation'' [] False
               (Some [(''answer'', TypeAnnotation ''NumberTypeAnnotation'' [] False None)])\<rparr>\<rparr> []
     = Inl (Error ''Unknown prop type for method arg, found: AnyTypeAnnotation"'')
   \<and> propertiesMapEntry
       \<lparr>method_name = ''getConstants'',
        method_typeAnnotation =
          \<lparr>params = [\<lparr>param_name = ''options'', param_nullable = False,
                       param_typeAnnotation = TypeAnnotation ''AnyTypeAnnotation'' [] False None\<rparr>],
           returnTypeAnnotation =
             TypeAnnotation ''ObjectTypeAnnotation'' [] False
               (Some [(''answer'', TypeAnnotation ''NumberTypeAnnotation'' [] False None)])\<rparr>\<rparr>
     = ''  methodMap_["getConstants"] = MethodMetadata {1, __hostFunction_Native::_MODULE_NAME_::SpecJSI_getConstants};''\<close>
  by (simp add: translateMethodForImplementation_def translateReturnTypeToKind_def
      translateMethodTypeToJniSignature_def translateParamTypeToJniType_def bind_def
      propertiesMapEntry_def entry_text numberToString.simps)

text \<open>
  C5, amended. For a method named \<^verbatim>\<open>getConstants\<close> whose declared return is a structural
  object annotation: with an empty property list the invocation thunk and the registration
  entry are both the empty text, and nothing is thrown. With at least one property the
  registration entry is the entry template filled with the method name and the number of
  declared parameters; the invocation thunk is the thunk template filled with the method
  name, the kind \<^verbatim>\<open>ObjectKind\<close> and the descriptor \<^verbatim>\<open>(\<close>parameter tokens\<^verbatim>\<open>)Ljava/util/Map;\<close> when
  every parameter is translated by the ABI-type translator, and when the translation of
  the parameters throws, the emitter throws the same error and there is no thunk. (Both
  texts still hold the placeholder of the module name, which is filled in when the module
  is assembled.)
\<close>

theorem getConstants_empty_payload:
  assumes "method_name m = ''getConstants''"
    and "type (returnTypeAnnotation (method_typeAnnotation m)) = ''ObjectTypeAnnotation''"
  shows \<open>(properties (returnTypeAnnotation (method_typeAnnotation m)) = Some []
            \<longrightarrow> translateMethodForImplementation m aliasTable = Inr []
                \<and> propertiesMapEntry m = [])
         \<and> (\<forall>ps. properties (returnTypeAnnotation (method_typeAnnotation m)) = Some ps
                  \<and> ps \<noteq> []
            \<longrightarrow> propertiesMapEntry m
                  = ''  methodMap_["getConstants"] = MethodMetadata {''
                    @ numberToString (length (params (method_typeAnnotation m)))
                    @ '', __hostFunction_Native::_MODULE_NAME_::SpecJSI_getConstants};''
                \<and> (\<forall>tokens.
                      mapResult (\<lambda>t. translateParamTypeToJniType t aliasTable)
                        (params (method_typeAnnotation m)) = Inr tokens
                    \<longrightarrow> translateMethodForImplementation m aliasTable
                          = Inr (''\<newline>static facebook::jsi::Value __hostFunction_Native::_MODULE_NAME_::SpecJSI_getConstants''
                                 @ ''(facebook::jsi::Runtime& rt, TurboModule &turboModule, const facebook::jsi::Value* args, size_t count) {\<newline>''
                                 @ ''  return static_cast<JavaTurboModule &>(turboModule).invokeJavaMethod(rt, ObjectKind, "getConstants", "(''
                                 @ concat tokens @ '')Ljava/util/Map;", args, count);\<newline>}''))
                \<and> (\<forall>e.
                      mapResult (\<lambda>t. translateParamTypeToJniType t aliasTable)
                        (params (method_typeAnnotation m)) = Inl e
                    \<longrightarrow> translateMethodForImplementation m aliasTable = Inl e))\<close>
proof (intro conjI impI allI)
  assume "properties (returnTypeAnnotation (method_typeAnnotation m)) = Some []"
  with assms show "translateMethodForImplementation m aliasTable = Inr []"
    and "propertiesMapEntry m = []"
    by (simp_all add: translateMethodForImplementation_def propertiesMapEntry_def)
next
  fix ps
  assume h: "properties (returnTypeAnnotation (method_typeAnnotation m)) = Some ps \<and> ps \<noteq> []"
  show \<open>propertiesMapEntry m
          = ''  methodMap_["getConstants"] = MethodMetadata {''
            @ numberToString (length (params (method_typeAnnotation m)))
            @ '', __hostFunction_Native::_MODULE_NAME_::SpecJSI_getConstants};''\<close>
    using assms h
    by (simp add: propertiesMapEntry_def entry_text numberToString_no_dollar
        del: append.simps)
next
  fix ps tokens
  assume h: "properties (returnTypeAnnotation (method_typeAnnotation m)) = Some ps \<and> ps \<noteq> []"
    and tokens: "mapResult (\<lambda>t. translateParamTypeToJniType t aliasTable)
                   (params (method_typeAnnotation m)) = Inr tokens"
  have kind: \<open>translateReturnTypeToKind (returnTypeAnnotation (method_typeAnnotation m))
                = Inr ''ObjectKind''\<close>
    using assms by (simp add: translateReturnTypeToKind_def)
  have sig: \<open>translateMethodTypeToJniSignature m aliasTable
                = Inr (''('' @ concat tokens @ '')Ljava/util/Map;'')\<close>
    using assms tokens
    by (simp add: translateMethodTypeToJniSignature_def bind_def Let_def join_empty_separator)
  have \<open>translateMethodForImplementation m aliasTable
      = Inr (''\<newline>static facebook::jsi::Value __hostFunction_Native::_MODULE_NAME_::SpecJSI_'' @ ''getConstants''
           @ ''(facebook::jsi::Runtime& rt, TurboModule &turboModule, const facebook::jsi::Value* args, size_t count) {\<newline>''
           @ ''  return static_cast<JavaTurboModule &>(turboModule).invokeJavaMethod(rt, '' @ ''ObjectKind''
           @ '', "'' @ ''getConstants'' @ ''", "'' @ (''('' @ concat tokens @ '')Ljava/util/Map;'')
           @ ''", args, count);\<newline>}'')\<close>
    using assms h sig kind signature_no_dollar [OF sig]
    by (simp add: translateMethodForImplementation_def bind_def Let_def thunk_text
        del: append.simps)
  then show \<open>translateMethodForImplementation m aliasTable
      = Inr (''\<newline>static facebook::jsi::Value __hostFunction_Native::_MODULE_NAME_::SpecJSI_getConstants''
             @ ''(facebook::jsi::Runtime& rt, TurboModule &turboModule, const facebook::jsi::Value* args, size_t count) {\<newline>''
             @ ''  return static_cast<JavaTurboModule &>(turboModule).invokeJavaMethod(rt, ObjectKind, "getConstants", "(''
             @ concat tokens @ '')Ljava/util/Map;", args, count);\<newline>}'')\<close>
    by simp
next
  fix ps e
  assume h: "properties (returnTypeAnnotation (method_typeAnnotation m)) = Some ps \<and> ps \<noteq> []"
    and failed: "mapResult (\<lambda>t. translateParamTypeToJniType t aliasTable)
                   (params (method_typeAnnotation m)) = Inl e"
  have kind: \<open>translateReturnTypeToKind (returnTypeAnnotation (method_typeAnnotation m))
                = Inr ''ObjectKind''\<close>
    using assms by (simp add: translateReturnTypeToKind_def)
  have sig: \<open>translateMethodTypeToJniSignature m aliasTable = Inl e\<close>
    using failed by (simp add: translateMethodTypeToJniSignature_def bind_def Let_def)
  show "translateMethodForImplementation m aliasTable = Inl e"
    using assms h sig kind
    by (simp add: translateMethodForImplementation_def bind_def Let_def)
qed

text \<open>The theorem at \<^verbatim>\<open>getConstants(): {||}\<close>, at \<^verbatim>\<open>getConstants(): {|answer: number|}\<close> and at
  \<^verbatim>\<open>getConstants(options: any): {|answer: number|}\<close>.\<close>

theorem getConstants_empty_payload_witness:
  \<open>(translateMethodForImplementation
       \<lparr>method_name = ''getConstants'',
        method_typeAnnotation =
          \<lparr>params = [],
           returnTypeAnnotation = TypeAnnotation ''ObjectTypeAnnotation'' [] False (Some [])\<rparr>\<rparr> [] = Inr []
     \<and> propertiesMapEntry
       \<lparr>method_name = ''getConstants'',
        method_typeAnnotation =
          \<lparr>params = [],
           returnTypeAnnotation = TypeAnnotation ''ObjectTypeAnnotation'' [] False (Some [])\<rparr>\<rparr> = [])
   \<and> (translateMethodForImplementation
       \<lparr>method_name = ''getConstants'',
        method_typeAnnotation =
          \<lparr>params = [],
           returnTypeAnnotation =
             TypeAnnotation ''ObjectTypeAnnotation'' [] False
               (Some [(''answer'', TypeAnnotation ''NumberTypeAnnotation'' [] False None)])\<rparr>\<rparr> []
       = Inr (''\<newline>static facebook::jsi::Value __hostFunction_Native::_MODULE_NAME_::SpecJSI_getConstants(facebook::jsi::Runtime& rt, TurboModule &turboModule, const facebook::jsi::Value* args, size_t count) {\<newline>''
       @ ''  return static_cast<JavaTurboModule &>(turboModule).invokeJavaMethod(rt, ObjectKind, "getConstants", "()Ljava/util/Map;", args, count);\<newline>}'')
     \<and> propertiesMapEntry
       \<lparr>method_name = ''getConstants'',
        method_typeAnnotation =
          \<lparr>params = [],
           returnTypeAnnotation =
             TypeAnnotation ''ObjectTypeAnnotation'' [] False
               (Some [(''answer'', TypeAnnotation ''NumberTypeAnnotation'' [] False None)])\<rparr>\<rparr>
       = ''  methodMap_["getConstants"] = MethodMetadata {0, __hostFunction_Native::_MODULE_NAME_::SpecJSI_getConstants};'')
   \<and> translateMethodForImplementation
       \<lparr>method_name = ''getConstants'',
        method_typeAnnotation =
          \<lparr>params = [\<lparr>param_name = ''options'', param_nullable = False,
                       param_typeAnnotation = TypeAnnotation ''AnyTypeAnnotation'' [] False None\<rparr>],
           returnTypeAnnotation =
             TypeAnnotation ''ObjectTypeAnnotation'' [] False
               (Some [(''answer'', TypeAnnotation ''NumberTypeAnnotation'' [] False None)])\<rparr>\<rparr> []
     = Inl (Error ''Unknown prop type for method arg, found: AnyTypeAnnotation"'')\<close>
proof -
  let ?m1 = \<open>\<lparr>method_name = ''getConstants'',
        method_typeAnnotation =
          \<lparr>params = [],
           returnTypeAnnotation = TypeAnnotation ''ObjectTypeAnnotation'' [] False (Some [])\<rparr>\<rparr>\<close>
  let ?m2 = \<open>\<lparr>method_name = ''getConstants'',
        method_typeAnnotation =
          \<lparr>params = [],
           returnTypeAnnotation =
             TypeAnnotation ''ObjectTypeAnnotation'' [] False
               (Some [(''answer'', TypeAnnotation ''NumberTypeAnnotation'' [] False None)])\<rparr>\<rparr>\<close>
  let ?m3 = \<open>\<lparr>method_name = ''getConstants'',
        method_typeAnnotation =
          \<lparr>params = [\<lparr>param_name = ''options'', param_nullable = False,
                       param_typeAnnotation = TypeAnnotation ''AnyTypeAnnotation'' [] False None\<rparr>],
           returnTypeAnnotation =
             TypeAnnotation ''ObjectTypeAnnotation'' [] False
               (Some [(''answer'', TypeAnnotation ''NumberTypeAnnotation'' [] False None)])\<rparr>\<rparr>\<close>
  have p2: \<open>mapResult (\<lambda>t. translateParamTypeToJniType t []) (params (method_typeAnnotation ?m2))
              = Inr []\<close>
    by simp
  have p3: \<open>mapResult (\<lambda>t. translateParamTypeToJniType t []) (params (method_typeAnnotation ?m3))
              = Inl (Error ''Unknown prop type for method arg, found: AnyTypeAnnotation"'')\<close>
    by (simp add: translateParamTypeToJniType_def bind_def)
  show ?thesis
    using getConstants_empty_payload [of ?m1 \<open>[]\<close>]
      getConstants_empty_payload [of ?m2 \<open>[]\<close>] p2
      getConstants_empty_payload [of ?m3 \<open>[]\<close>] p3
    by (simp add: numberToString.simps)
qed

text \<open>
  C10, as stated, fails: \<^const>\<open>propertyTemplate\<close> has no \<^verbatim>\<open>::_ARGS_::\<close> placeholder, so the
  argument-name list that \<^const>\<open>translateMethodForImplementation\<close> computes is substituted
  nowhere. The thunk of \<^verbatim>\<open>add(alpha: number, beta: number): number\<close> contains neither
  parameter name.
\<close>

theorem thunk_argument_names_counterexample:
  \<open>translateMethodForImplementation addMethod []
     = Inr ''\<newline>static facebook::jsi::Value __hostFunction_Native::_MODULE_NAME_::SpecJSI_add(facebook::jsi::Runtime& rt, TurboModule &turboModule, const facebook::jsi::Value* args, size_t count) {\<newline>  return static_cast<JavaTurboModule &>(turboModule).invokeJavaMethod(rt, NumberKind, "add", "(DD)D", args, count);\<newline>}''
   \<and> \<not> sublist ''alpha''
         (projr (translateMethodForImplementation addMethod []))
   \<and> \<not> sublist ''beta''
         (projr (translateMethodForImplementation addMethod []))\<close>
proof -
  have thunk: \<open>translateMethodForImplementation addMethod []
     = Inr ''\<newline>static facebook::jsi::Value __hostFunction_Native::_MODULE_NAME_::SpecJSI_add(facebook::jsi::Runtime& rt, TurboModule &turboModule, const facebook::jsi::Value* args, size_t count) {\<newline>  return static_cast<JavaTurboModule &>(turboModule).invokeJavaMethod(rt, NumberKind, "add", "(DD)D", args, count);\<newline>}''\<close>
    by (simp add: addMethod_def translateMethodForImplementation_def translateReturnTypeToKind_def
        translateMethodTypeToJniSignature_def translateParamTypeToJniType_def
        translateReturnTypeToJniType_def bind_def thunk_text)
  show ?thesis
    unfolding thunk by (simp add: sublist_code)
qed

text \<open>
  C10, amended. For a non-degenerate method whose kind and descriptor are translated and
  whose name contains neither a colon nor a dollar sign (as no identifier with a meaning
  in a placeholder or in a replacement string does), the invocation thunk is a fixed text
  around the method name, the dispatch kind and the descriptor. It contains no
  argument-name list: the parameter names and the synthetic promise name do not occur in
  it, and the thunk does not depend on them.
\<close>

theorem thunk_text_without_argument_names:
  assumes "\<not> (method_name m = ''getConstants''
              \<and> type (returnTypeAnnotation (method_typeAnnotation m)) = ''ObjectTypeAnnotation''
              \<and> properties (returnTypeAnnotation (method_typeAnnotation m)) = Some [])"
    and "translateReturnTypeToKind (returnTypeAnnotation (method_typeAnnotation m)) = Inr kind"
    and "translateMethodTypeToJniSignature m aliasTable = Inr sig"
    and "CHR '':'' \<notin> set (method_name m)" and "CHR ''$'' \<notin> set (method_name m)"
  shows \<open>translateMethodForImplementation m aliasTable
         = Inr (''\<newline>static facebook::jsi::Value __hostFunction_Native::_MODULE_NAME_::SpecJSI_''
                @ method_name m
                @ ''(facebook::jsi::Runtime& rt, TurboModule &turboModule, const facebook::jsi::Value* args, size_t count) {\<newline>''
                @ ''  return static_cast<JavaTurboModule &>(turboModule).invokeJavaMethod(rt, ''
                @ kind @ '', "'' @ method_name m @ ''", "'' @ sig @ ''", args, count);\<newline>}'')\<close>
proof -
  have degenerate: \<open>\<not> (method_name m = ''getConstants''
       \<and> type (returnTypeAnnotation (method_typeAnnotation m)) = ''ObjectTypeAnnotation''
       \<and> (case properties (returnTypeAnnotation (method_typeAnnotation m)) of
            None \<Rightarrow> False | Some ps \<Rightarrow> length ps = 0))\<close>
    using assms(1) by (auto split: option.splits)
  show ?thesis
    unfolding translateMethodForImplementation_def Let_def
    using degenerate assms(2-5) kind_chars [OF assms(2)] signature_no_dollar [OF assms(3)]
    by (simp add: bind_def thunk_text del: append.simps append_Cons append_Nil)
qed

text \<open>The theorem at \<^verbatim>\<open>add(alpha: number, beta: number): number\<close>.\<close>

theorem thunk_text_without_argument_names_witness:
  \<open>translateMethodForImplementation addMethod []
     = Inr ''\<newline>static facebook::jsi::Value __hostFunction_Native::_MODULE_NAME_::SpecJSI_add(facebook::jsi::Runtime& rt, TurboModule &turboModule, const facebook::jsi::Value* args, size_t count) {\<newline>  return static_cast<JavaTurboModule &>(turboModule).invokeJavaMethod(rt, NumberKind, "add", "(DD)D", args, count);\<newline>}''\<close>
proof -
  let ?m = \<open>addMethod\<close>
  have 1: \<open>\<not> (method_name ?m = ''getConstants''
              \<and> type (returnTypeAnnotation (method_typeAnnotation ?m)) = ''ObjectTypeAnnotation''
              \<and> properties (returnTypeAnnotation (method_typeAnnotation ?m)) = Some [])\<close>
    by (simp add: addMethod_def)
  have 2: \<open>translateReturnTypeToKind (returnTypeAnnotation (method_typeAnnotation ?m))
            = Inr ''NumberKind''\<close>
    by (simp add: addMethod_def translateReturnTypeToKind_def)
  have 3: \<open>translateMethodTypeToJniSignature ?m [] = Inr ''(DD)D''\<close>
    by (simp add: addMethod_def translateMethodTypeToJniSignature_def
        translateParamTypeToJniType_def translateReturnTypeToJniType_def bind_def)
  have 4: "CHR '':'' \<notin> set (method_name ?m)" by (simp add: addMethod_def)
  have 5: "CHR ''$'' \<notin> set (method_name ?m)" by (simp add: addMethod_def)
  show ?thesis
    using thunk_text_without_argument_names [OF 1 2 3 4 5] by (simp add: addMethod_def)
qed

subsection \<open>The assembler\<close>

text \<open>
  C8, as stated, fails for module names that are array indices: \<^verbatim>\<open>Object.keys\<close> lists such
  names first, whatever the order in which flattening met them. Both groups of the schema
  define a module \<^verbatim>\<open>Calc\<close>; the first also has a module \<^verbatim>\<open>B\<close>, the second a module \<^verbatim>\<open>7\<close>.
  Flattening meets \<^verbatim>\<open>B\<close>, \<^verbatim>\<open>Calc\<close>, \<^verbatim>\<open>7\<close> in this order, but the generated file has the
  modules, and the blocks of the lookup function, in the order \<^verbatim>\<open>7\<close>, \<^verbatim>\<open>B\<close>, \<^verbatim>\<open>Calc\<close>.
  It also fails for a module named \<^verbatim>\<open>__proto__\<close>, which flattening does not merge into the
  namespace at all.
\<close>

theorem flatten_index_name_counterexample:
  \<open>firstEncounterOrder (concat (map objectKeys (nativeModuleGroups indexNameSchema)))
     = [''B'', ''Calc'', ''7'']
   \<and> objectKeys (flattenNativeModules indexNameSchema) = [''7'', ''B'', ''Calc'']
   \<and> generate ''SampleLib'' indexNameSchema ''SampleSpec''
     = Inr [(''SampleSpec-generated.cpp'',
           ''\<newline>''
           @ ''/**\<newline>''
           @ '' * Copyright (c) Facebook, Inc. and its affiliates.\<newline>''
           @ '' *\<newline>''
           @ '' * This source code is licensed under the MIT license found in the\<newline>''
           @ '' * LICENSE file in the root directory of this source tree.\<newline>''
           @ '' *\<newline>''
           @ '' * @generated by codegen project: GenerateModuleJniCpp.js\<newline>''
           @ '' */\<newline>''
           @ ''\<newline>''
           @ ''#include "SampleSpec.h"\<newline>''
           @ ''\<newline>''
           @ ''namespace facebook {\<newline>''
           @ ''namespace react {\<newline>''
           @ ''\<newline>''
           @ ''\<newline>''
           @ ''\<newline>''
           @ ''Native7SpecJSI::Native7SpecJSI(const JavaTurboModule::InitParams &params)\<newline>''
           @ ''  : JavaTurboModule(params) {\<newline>''
           @ ''\<newline>''
           @ ''}\<newline>''
           @ ''\<newline>''
           @ ''\<newline>''
           @ ''NativeBSpecJSI::NativeBSpecJSI(const JavaTurboModule::InitParams &params)\<newline>''
           @ ''  : JavaTurboModule(params) {\<newline>''
           @ ''\<newline>''
           @ ''}\<newline>''
           @ ''\<newline>''
           @ ''static facebook::jsi::Value __hostFunction_NativeCalcSpecJSI_add(facebook::jsi::Runtime& rt, TurboModule &turboModule, const facebook::jsi::Value* args, size_t count) {\<newline>''
           @ ''  return static_cast<JavaTurboModule &>(turboModule).invokeJavaMethod(rt, NumberKind, "add", "(DD)D", args, count);\<newline>''
           @ ''}\<newline>''
           @ ''\<newline>''
           @ ''NativeCalcSpecJSI::NativeCalcSpecJSI(const JavaTurboModule::InitParams &params)\<newline>''
           @ ''  : JavaTurboModule(params) {\<newline>''
           @ ''  methodMap_["add"] = MethodMetadata {2, __hostFunction_NativeCalcSpecJSI_add};\<newline>''
           @ ''}\<newline>''
           @ ''\<newline>''
           @ ''std::shared_ptr<TurboModule> SampleLib_ModuleProvider(const std::string moduleName, const JavaTurboModule::InitParams &params) {\<newline>''
           @ ''  if (moduleName == "7") {\<newline>''
           @ ''    return std::make_shared<Native7SpecJSI>(params);\<newline>''
           @ ''  }\<newline>''
           @ ''  if (moduleName == "B") {\<newline>''
           @ ''    return std::make_shared<NativeBSpecJSI>(params);\<newline>''
           @ ''  }\<newline>''
           @ ''  if (moduleName == "Calc") {\<newline>''
           @ ''    return std::make_shared<NativeCalcSpecJSI>(params);\<newline>''
           @ ''  }\<newline>''
           @ ''}\<newline>''
           @ ''\<newline>''
           @ ''} // namespace react\<newline>''
           @ ''} // namespace facebook\<newline>'')]
   \<and> concat (map objectKeys (nativeModuleGroups protoNameSchema)) = [''__proto__'', ''Calc'']
   \<and> objectKeys (flattenNativeModules protoNameSchema) = [''Calc'']\<close>
proof -
  have flat: \<open>flattenNativeModules indexNameSchema
        = [(''B'', \<lparr>aliases = [], module_properties = []\<rparr>),
           (''Calc'', \<lparr>aliases = [], module_properties = [addMethod]\<rparr>),
           (''7'', \<lparr>aliases = [], module_properties = []\<rparr>)]\<close>
    by (simp add: indexNameSchema_def object_eval)
  have met: \<open>firstEncounterOrder (concat (map objectKeys (nativeModuleGroups indexNameSchema)))
        = [''B'', ''Calc'', ''7'']\<close>
    by (simp add: indexNameSchema_def object_eval firstEncounterOrder_def)
  have keys: \<open>objectKeys (flattenNativeModules indexNameSchema) = [''7'', ''B'', ''Calc'']\<close>
    unfolding flat by (simp add: object_eval)
  have trimmed: \<open>moduleTemplate
        = ''::_TURBOMODULE_METHOD_INVOKERS_::\<newline>''
          @ ''\<newline>''
          @ ''Native::_MODULE_NAME_::SpecJSI::Native::_MODULE_NAME_::SpecJSI(const JavaTurboModule::InitParams &params)\<newline>''
          @ ''  : JavaTurboModule(params) {\<newline>''
          @ ''::_PROPERTIES_MAP_::\<newline>''
          @ ''}''\<close>
    by (simp add: moduleTemplate_def trim_def isWhiteSpace_def)
  have thunk: \<open>translateMethodForImplementation addMethod []
        = Inr (''\<newline>''
           @ ''static facebook::jsi::Value __hostFunction_Native::_MODULE_NAME_::SpecJSI_add(facebook::jsi::Runtime& rt, TurboModule &turboModule, const facebook::jsi::Value* args, size_t count) {\<newline>''
           @ ''  return static_cast<JavaTurboModule &>(turboModule).invokeJavaMethod(rt, NumberKind, "add", "(DD)D", args, count);\<newline>''
           @ ''}'')\<close>
    by (simp add: addMethod_def translateMethodForImplementation_def translateReturnTypeToKind_def
        translateMethodTypeToJniSignature_def translateParamTypeToJniType_def
        translateReturnTypeToJniType_def bind_def thunk_text)
  have entry: \<open>propertiesMapEntry addMethod
        = ''  methodMap_["add"] = MethodMetadata {2, __hostFunction_Native::_MODULE_NAME_::SpecJSI_add};''\<close>
    by (simp add: addMethod_def propertiesMapEntry_def propertyDefTemplate_def replace_eval
        numberToString.simps)
  have t7: \<open>moduleText [(''B'', \<lparr>aliases = [], module_properties = []\<rparr>),
           (''Calc'', \<lparr>aliases = [], module_properties = [addMethod]\<rparr>),
           (''7'', \<lparr>aliases = [], module_properties = []\<rparr>)] ''7''
        = Inr (''\<newline>''
           @ ''\<newline>''
           @ ''Native7SpecJSI::Native7SpecJSI(const JavaTurboModule::InitParams &params)\<newline>''
           @ ''  : JavaTurboModule(params) {\<newline>''
           @ ''\<newline>''
           @ ''}'')\<close>
    unfolding moduleText_def trimmed by (simp add: bind_def replace_eval)
  have tB: \<open>moduleText [(''B'', \<lparr>aliases = [], module_properties = []\<rparr>),
           (''Calc'', \<lparr>aliases = [], module_properties = [addMethod]\<rparr>),
           (''7'', \<lparr>aliases = [], module_properties = []\<rparr>)] ''B''
        = Inr (''\<newline>''
           @ ''\<newline>''
           @ ''NativeBSpecJSI::NativeBSpecJSI(const JavaTurboModule::InitParams &params)\<newline>''
           @ ''  : JavaTurboModule(params) {\<newline>''
           @ ''\<newline>''
           @ ''}'')\<close>
    unfolding moduleText_def trimmed by (simp add: bind_def replace_eval)
  have tCalc: \<open>moduleText [(''B'', \<lparr>aliases = [], module_properties = []\<rparr>),
           (''Calc'', \<lparr>aliases = [], module_properties = [addMethod]\<rparr>),
           (''7'', \<lparr>aliases = [], module_properties = []\<rparr>)] ''Calc''
        = Inr (''\<newline>''
           @ ''static facebook::jsi::Value __hostFunction_NativeCalcSpecJSI_add(facebook::jsi::Runtime& rt, TurboModule &turboModule, const facebook::jsi::Value* args, size_t count) {\<newline>''
           @ ''  return static_cast<JavaTurboModule &>(turboModule).invokeJavaMethod(rt, NumberKind, "add", "(DD)D", args, count);\<newline>''
           @ ''}\<newline>''
           @ ''\<newline>''
           @ ''NativeCalcSpecJSI::NativeCalcSpecJSI(const JavaTurboModule::InitParams &params)\<newline>''
           @ ''  : JavaTurboModule(params) {\<newline>''
           @ ''  methodMap_["add"] = MethodMetadata {2, __hostFunction_NativeCalcSpecJSI_add};\<newline>''
           @ ''}'')\<close>
    unfolding moduleText_def trimmed by (simp add: thunk entry bind_def replace_eval)
  have lookup: \<open>moduleLookup (flattenNativeModules indexNameSchema)
        = ''  if (moduleName == "7") {\<newline>''
           @ ''    return std::make_shared<Native7SpecJSI>(params);\<newline>''
           @ ''  }\<newline>''
           @ ''  if (moduleName == "B") {\<newline>''
           @ ''    return std::make_shared<NativeBSpecJSI>(params);\<newline>''
           @ ''  }\<newline>''
           @ ''  if (moduleName == "Calc") {\<newline>''
           @ ''    return std::make_shared<NativeCalcSpecJSI>(params);\<newline>''
           @ ''  }''\<close>
    unfolding moduleLookup_def keys by (simp add: lookup_block_text)
  have gen: \<open>generate ''SampleLib'' indexNameSchema ''SampleSpec''
     = Inr [(''SampleSpec-generated.cpp'',
           ''\<newline>''
           @ ''/**\<newline>''
           @ '' * Copyright (c) Facebook, Inc. and its affiliates.\<newline>''
           @ '' *\<newline>''
           @ '' * This source code is licensed under the MIT license found in the\<newline>''
           @ '' * LICENSE file in the root directory of this source tree.\<newline>''
           @ '' *\<newline>''
           @ '' * @generated by codegen project: GenerateModuleJniCpp.js\<newline>''
           @ '' */\<newline>''
           @ ''\<newline>''
           @ ''#include "SampleSpec.h"\<newline>''
           @ ''\<newline>''
           @ ''namespace facebook {\<newline>''
           @ ''namespace react {\<newline>''
           @ ''\<newline>''
           @ ''\<newline>''
           @ ''\<newline>''
           @ ''Native7SpecJSI::Native7SpecJSI(const JavaTurboModule::InitParams &params)\<newline>''
           @ ''  : JavaTurboModule(params) {\<newline>''
           @ ''\<newline>''
           @ ''}\<newline>''
           @ ''\<newline>''
           @ ''\<newline>''
           @ ''NativeBSpecJSI::NativeBSpecJSI(const JavaTurboModule::InitParams &params)\<newline>''
           @ ''  : JavaTurboModule(params) {\<newline>''
           @ ''\<newline>''
           @ ''}\<newline>''
           @ ''\<newline>''
           @ ''static facebook::jsi::Value __hostFunction_NativeCalcSpecJSI_add(facebook::jsi::Runtime& rt, TurboModule &turboModule, const facebook::jsi::Value* args, size_t count) {\<newline>''
           @ ''  return static_cast<JavaTurboModule &>(turboModule).invokeJavaMethod(rt, NumberKind, "add", "(DD)D", args, count);\<newline>''
           @ ''}\<newline>''
           @ ''\<newline>''
           @ ''NativeCalcSpecJSI::NativeCalcSpecJSI(const JavaTurboModule::InitParams &params)\<newline>''
           @ ''  : JavaTurboModule(params) {\<newline>''
           @ ''  methodMap_["add"] = MethodMetadata {2, __hostFunction_NativeCalcSpecJSI_add};\<newline>''
           @ ''}\<newline>''
           @ ''\<newline>''
           @ ''std::shared_ptr<TurboModule> SampleLib_ModuleProvider(const std::string moduleName, const JavaTurboModule::InitParams &params) {\<newline>''
           @ ''  if (moduleName == "7") {\<newline>''
           @ ''    return std::make_shared<Native7SpecJSI>(params);\<newline>''
           @ ''  }\<newline>''
           @ ''  if (moduleName == "B") {\<newline>''
           @ ''    return std::make_shared<NativeBSpecJSI>(params);\<newline>''
           @ ''  }\<newline>''
           @ ''  if (moduleName == "Calc") {\<newline>''
           @ ''    return std::make_shared<NativeCalcSpecJSI>(params);\<newline>''
           @ ''  }\<newline>''
           @ ''}\<newline>''
           @ ''\<newline>''
           @ ''} // namespace react\<newline>''
           @ ''} // namespace facebook\<newline>'')]\<close>
    unfolding generate_def Let_def keys lookup unfolding flat
    by (simp add: t7 tB tCalc bind_def template_def replace_eval)
  have proto: \<open>concat (map objectKeys (nativeModuleGroups protoNameSchema))
        = [''__proto__'', ''Calc'']
      \<and> objectKeys (flattenNativeModules protoNameSchema) = [''Calc'']\<close>
    by (simp add: protoNameSchema_def object_eval)
  show ?thesis
    using met keys gen proto by simp
qed

text \<open>
  C8, amended. Flattening merges the native modules of the groups, in the processing order
  of the groups, into one object keyed by module name, except a module named
  \<^verbatim>\<open>__proto__\<close>, which is dropped. The object holds the module names in the order in which
  each was first met (the names of a group in the order of its keys), and a module name
  defined by several groups keeps the definition of the last group that defines it, which
  is the one \<^const>\<open>moduleText\<close> emits. \<^const>\<open>generate\<close> emits the texts of the modules, and the
  blocks of the lookup function, joined in the order of \<^verbatim>\<open>Object.keys\<close> of the flattened
  object: the names that are array indices first, in ascending numeric order, then the
  other names in the order of first encounter. So when no module name is an array index,
  the emission order is the order of first encounter.
\<close>

theorem flatten_last_write_wins_first_encounter_order:
  fixes schema :: SchemaType and libraryName moduleSpecName :: string
  defines "groups \<equiv> nativeModuleGroups schema"
    and "flattened \<equiv> flattenNativeModules schema"
  defines "met \<equiv>
      firstEncounterOrder (filter (\<lambda>k. k \<noteq> ''__proto__'') (concat (map objectKeys groups)))"
  defines "emitted \<equiv>
      sort_key decimalValue (filter isArrayIndex met) @ filter (\<lambda>k. \<not> isArrayIndex k) met"
  shows \<open>map fst flattened = met
     \<and> objectKeys flattened = emitted
     \<and> ((\<forall>g \<in> set groups. \<forall>k \<in> fst ` set g. \<not> isArrayIndex k)
         \<longrightarrow> objectKeys flattened = met)
     \<and> (\<forall>earlier g later moduleName.
           groups = earlier @ g # later
           \<and> moduleName \<in> fst ` set g \<and> moduleName \<noteq> ''__proto__''
           \<and> (\<forall>h \<in> set later. moduleName \<notin> fst ` set h)
         \<longrightarrow> map_of flattened moduleName = map_of g moduleName
             \<and> moduleText flattened moduleName = moduleText g moduleName)
     \<and> generate libraryName schema moduleSpecName
       = bind (mapResult (moduleText flattened) emitted)
           (\<lambda>moduleTexts.
              Inr [(moduleSpecName @ ''-generated.cpp'',
                    replaceAll ''::_INCLUDE_::'' (''"'' @ moduleSpecName @ ''.h"'')
                      (replaceAll ''::_MODULE_LOOKUP_::'' (moduleLookup flattened)
                         (replaceAll ''::_LIBRARY_NAME_::'' libraryName
                            (replaceAll ''::_MODULES_::'' (join ''\<newline>'' moduleTexts)
                               template))))])
     \<and> ((\<forall>moduleName \<in> set met. CHR ''$'' \<notin> set moduleName)
         \<longrightarrow> moduleLookup flattened
               = join ''\<newline>''
                   (map (\<lambda>moduleName.
                           ''  if (moduleName == "'' @ moduleName @ ''") {\<newline>''
                           @ ''    return std::make_shared<Native'' @ moduleName
                           @ ''SpecJSI>(params);\<newline>''
                           @ ''  }'')
                      emitted))\<close>
proof -
  let ?own = "\<lambda>g. map (\<lambda>k. (k, the (map_of g k)))
                     (filter (\<lambda>k. k \<noteq> ''__proto__'') (objectKeys g))"
  have flat: "flattened = fold (\<lambda>(k, v). AList.update k v) (concat (map ?own groups)) []"
    unfolding flattened_def groups_def flattenNativeModules_def by (rule flatten_updates)
  have "map fst (concat (map ?own groups))
          = filter (\<lambda>k. k \<noteq> ''__proto__'') (concat (map objectKeys groups))"
    by (simp add: map_concat comp_def filter_concat)
  then have keys: "map fst flattened = met"
    unfolding flat keys_of_updates met_def firstEncounterOrder_def by simp
  have sorted: "objectKeys flattened = emitted"
    unfolding objectKeys_def keys emitted_def ..
  have plain: "objectKeys flattened = met"
    if "\<forall>g \<in> set groups. \<forall>k \<in> fst ` set g. \<not> isArrayIndex k"
  proof -
    have "set met \<subseteq> set (concat (map objectKeys groups))"
      unfolding met_def firstEncounterOrder_def
      using set_firstEncounterFrom [of "[]"] by fastforce
    then have "\<forall>k \<in> set met. \<not> isArrayIndex k"
      using that by (fastforce simp: set_objectKeys)
    then show ?thesis
      unfolding sorted emitted_def by (simp add: filter_empty_conv filter_id_conv)
  qed
  have wins: "map_of flattened moduleName = map_of g moduleName
              \<and> moduleText flattened moduleName = moduleText g moduleName"
    if h: "groups = earlier @ g # later
           \<and> moduleName \<in> fst ` set g \<and> moduleName \<noteq> ''__proto__''
           \<and> (\<forall>h \<in> set later. moduleName \<notin> fst ` set h)"
    for earlier g later moduleName
  proof -
    have later: "map_of (rev (concat (map ?own later))) moduleName = None"
      using h by (auto simp: map_of_eq_None_iff set_objectKeys image_iff)
    have here: "map_of (rev (?own g)) moduleName = map_of g moduleName"
      using h by (simp add: map_of_rev_own_properties)
    have defined: "map_of g moduleName \<noteq> None"
      using h by (simp add: map_of_eq_None_iff)
    have "map_of flattened moduleName
            = map_of (rev (concat (map ?own (earlier @ g # later)))) moduleName"
      unfolding flat map_of_updates using h by simp
    also have "\<dots> = map_of g moduleName"
      using later here defined by (auto simp: map_add_def split: option.splits)
    finally have "map_of flattened moduleName = map_of g moduleName" .
    then show ?thesis
      by (simp add: moduleText_def)
  qed
  have gen: \<open>generate libraryName schema moduleSpecName
       = bind (mapResult (moduleText flattened) emitted)
           (\<lambda>moduleTexts.
              Inr [(moduleSpecName @ ''-generated.cpp'',
                    replaceAll ''::_INCLUDE_::'' (''"'' @ moduleSpecName @ ''.h"'')
                      (replaceAll ''::_MODULE_LOOKUP_::'' (moduleLookup flattened)
                         (replaceAll ''::_LIBRARY_NAME_::'' libraryName
                            (replaceAll ''::_MODULES_::'' (join ''\<newline>'' moduleTexts)
                               template))))])\<close>
    unfolding generate_def Let_def sorted [unfolded flattened_def] flattened_def ..
  have blocks: \<open>moduleLookup flattened
               = join ''\<newline>''
                   (map (\<lambda>moduleName.
                           ''  if (moduleName == "'' @ moduleName @ ''") {\<newline>''
                           @ ''    return std::make_shared<Native'' @ moduleName
                           @ ''SpecJSI>(params);\<newline>''
                           @ ''  }'')
                      emitted)\<close>
    if clean: "\<forall>moduleName \<in> set met. CHR ''$'' \<notin> set moduleName"
  proof -
    have "set emitted = set met"
      unfolding emitted_def by auto
    then have "\<forall>moduleName \<in> set emitted. CHR ''$'' \<notin> set moduleName"
      using clean by simp
    then have \<open>map (\<lambda>moduleName. replaceAll ''::_MODULE_NAME_::'' moduleName oneModuleLookupTemplate)
                emitted
             = map (\<lambda>moduleName.
                           ''  if (moduleName == "'' @ moduleName @ ''") {\<newline>''
                           @ ''    return std::make_shared<Native'' @ moduleName
                           @ ''SpecJSI>(params);\<newline>''
                           @ ''  }'')
                      emitted\<close>
      by (intro map_cong refl) (simp add: lookup_block_text del: append.simps)
    then show ?thesis
      unfolding moduleLookup_def sorted by (rule arg_cong)
  qed
  show ?thesis
    using keys sorted plain wins gen blocks by blast
qed

text \<open>The theorem at two groups that both define \<^verbatim>\<open>Calc\<close>, the first without methods and
  the second with the method \<^verbatim>\<open>add\<close>: the generated file has \<^verbatim>\<open>Calc\<close> first, with the
  method of the second group.\<close>

theorem flatten_last_write_wins_first_encounter_order_witness:
  \<open>objectKeys (flattenNativeModules overwriteSchema) = [''Calc'', ''Log'', ''Net'']
   \<and> map_of (flattenNativeModules overwriteSchema) ''Calc''
     = Some \<lparr>aliases = [], module_properties = [addMethod]\<rparr>
   \<and> generate ''SampleLib'' overwriteSchema ''SampleSpec''
     = Inr [(''SampleSpec-generated.cpp'',
           ''\<newline>''
           @ ''/**\<newline>''
           @ '' * Copyright (c) Facebook, Inc. and its affiliates.\<newline>''
           @ '' *\<newline>''
           @ '' * This source code is licensed under the MIT license found in the\<newline>''
           @ '' * LICENSE file in the root directory of this source tree.\<newline>''
           @ '' *\<newline>''
           @ '' * @generated by codegen project: GenerateModuleJniCpp.js\<newline>''
           @ '' */\<newline>''
           @ ''\<newline>''
           @ ''#include "SampleSpec.h"\<newline>''
           @ ''\<newline>''
           @ ''namespace facebook {\<newline>''
           @ ''namespace react {\<newline>''
           @ ''\<newline>''
           @ ''\<newline>''
           @ ''static facebook::jsi::Value __hostFunction_NativeCalcSpecJSI_add(facebook::jsi::Runtime& rt, TurboModule &turboModule, const facebook::jsi::Value* args, size_t count) {\<newline>''
           @ ''  return static_cast<JavaTurboModule &>(turboModule).invokeJavaMethod(rt, NumberKind, "add", "(DD)D", args, count);\<newline>''
           @ ''}\<newline>''
           @ ''\<newline>''
           @ ''NativeCalcSpecJSI::NativeCalcSpecJSI(const JavaTurboModule::InitParams &params)\<newline>''
           @ ''  : JavaTurboModule(params) {\<newline>''
           @ ''  methodMap_["add"] = MethodMetadata {2, __hostFunction_NativeCalcSpecJSI_add};\<newline>''
           @ ''}\<newline>''
           @ ''\<newline>''
           @ ''\<newline>''
           @ ''NativeLogSpecJSI::NativeLogSpecJSI(const JavaTurboModule::InitParams &params)\<newline>''
           @ ''  : JavaTurboModule(params) {\<newline>''
           @ ''\<newline>''
           @ ''}\<newline>''
           @ ''\<newline>''
           @ ''\<newline>''
           @ ''NativeNetSpecJSI::NativeNetSpecJSI(const JavaTurboModule::InitParams &params)\<newline>''
           @ ''  : JavaTurboModule(params) {\<newline>''
           @ ''\<newline>''
           @ ''}\<newline>''
           @ ''\<newline>''
           @ ''std::shared_ptr<TurboModule> SampleLib_ModuleProvider(const std::string moduleName, const JavaTurboModule::InitParams &params) {\<newline>''
           @ ''  if (moduleName == "Calc") {\<newline>''
           @ ''    return std::make_shared<NativeCalcSpecJSI>(params);\<newline>''
           @ ''  }\<newline>''
           @ ''  if (moduleName == "Log") {\<newline>''
           @ ''    return std::make_shared<NativeLogSpecJSI>(params);\<newline>''
           @ ''  }\<newline>''
           @ ''  if (moduleName == "Net") {\<newline>''
           @ ''    return std::make_shared<NativeNetSpecJSI>(params);\<newline>''
           @ ''  }\<newline>''
           @ ''}\<newline>''
           @ ''\<newline>''
           @ ''} // namespace react\<newline>''
           @ ''} // namespace facebook\<newline>'')]\<close>
proof -
  let ?g1 = \<open>[(''Calc'', \<lparr>aliases = [], module_properties = []\<rparr>),
              (''Log'', \<lparr>aliases = [], module_properties = []\<rparr>)]\<close>
  let ?g2 = \<open>[(''Net'', \<lparr>aliases = [], module_properties = []\<rparr>),
              (''Calc'', \<lparr>aliases = [], module_properties = [addMethod]\<rparr>)]\<close>
  note flat = flatten_last_write_wins_first_encounter_order
                [where schema = overwriteSchema and libraryName = \<open>''SampleLib''\<close>
                   and moduleSpecName = \<open>''SampleSpec''\<close>]
  have groups: "nativeModuleGroups overwriteSchema = [?g1] @ ?g2 # []"
    by (simp add: overwriteSchema_def object_eval)
  have groups': "nativeModuleGroups overwriteSchema = [] @ ?g1 # [?g2]"
    by (simp add: groups)
  have met: \<open>firstEncounterOrder
               (filter (\<lambda>k. k \<noteq> ''__proto__'')
                  (concat (map objectKeys (nativeModuleGroups overwriteSchema))))
             = [''Calc'', ''Log'', ''Net'']\<close>
    unfolding groups by (simp add: firstEncounterOrder_def object_eval)
  have emitted: \<open>sort_key decimalValue (filter isArrayIndex [''Calc'', ''Log'', ''Net''])
                   @ filter (\<lambda>k. \<not> isArrayIndex k) [''Calc'', ''Log'', ''Net'']
                 = [''Calc'', ''Log'', ''Net'']\<close>
    by (simp add: isArrayIndex_def isDigit_def)
  have plain: "\<forall>g \<in> set (nativeModuleGroups overwriteSchema).
                 \<forall>k \<in> fst ` set g. \<not> isArrayIndex k"
    unfolding groups by (simp add: isArrayIndex_def isDigit_def)
  have keys: \<open>objectKeys (flattenNativeModules overwriteSchema) = [''Calc'', ''Log'', ''Net'']\<close>
    using flat [THEN conjunct2, THEN conjunct2, THEN conjunct1, THEN mp, OF plain]
    unfolding met .
  note wins = flat [THEN conjunct2, THEN conjunct2, THEN conjunct2, THEN conjunct1, rule_format]
  have calc: \<open>map_of (flattenNativeModules overwriteSchema) ''Calc'' = map_of ?g2 ''Calc''
              \<and> moduleText (flattenNativeModules overwriteSchema) ''Calc'' = moduleText ?g2 ''Calc''\<close>
    by (rule wins [of "[?g1]" ?g2 "[]" "''Calc''"]) (simp add: groups)
  have log: \<open>map_of (flattenNativeModules overwriteSchema) ''Log'' = map_of ?g1 ''Log''
              \<and> moduleText (flattenNativeModules overwriteSchema) ''Log'' = moduleText ?g1 ''Log''\<close>
    by (rule wins [of "[]" ?g1 "[?g2]" "''Log''"]) (simp add: groups)
  have net: \<open>map_of (flattenNativeModules overwriteSchema) ''Net'' = map_of ?g2 ''Net''
              \<and> moduleText (flattenNativeModules overwriteSchema) ''Net'' = moduleText ?g2 ''Net''\<close>
    by (rule wins [of "[?g1]" ?g2 "[]" "''Net''"]) (simp add: groups)
  have trimmed: \<open>moduleTemplate
        = ''::_TURBOMODULE_METHOD_INVOKERS_::\<newline>''
          @ ''\<newline>''
          @ ''Native::_MODULE_NAME_::SpecJSI::Native::_MODULE_NAME_::SpecJSI(const JavaTurboModule::InitParams &params)\<newline>''
          @ ''  : JavaTurboModule(params) {\<newline>''
          @ ''::_PROPERTIES_MAP_::\<newline>''
          @ ''}''\<close>
    by (simp add: moduleTemplate_def trim_def isWhiteSpace_def)
  have thunk: \<open>translateMethodForImplementation addMethod []
        = Inr (''\<newline>''
           @ ''static facebook::jsi::Value __hostFunction_Native::_MODULE_NAME_::SpecJSI_add(facebook::jsi::Runtime& rt, TurboModule &turboModule, const facebook::jsi::Value* args, size_t count) {\<newline>''
           @ ''  return static_cast<JavaTurboModule &>(turboModule).invokeJavaMethod(rt, NumberKind, "add", "(DD)D", args, count);\<newline>''
           @ ''}'')\<close>
    by (simp add: addMethod_def translateMethodForImplementation_def translateReturnTypeToKind_def
        translateMethodTypeToJniSignature_def translateParamTypeToJniType_def
        translateReturnTypeToJniType_def bind_def thunk_text)
  have entry: \<open>propertiesMapEntry addMethod
        = ''  methodMap_["add"] = MethodMetadata {2, __hostFunction_Native::_MODULE_NAME_::SpecJSI_add};''\<close>
    by (simp add: addMethod_def propertiesMapEntry_def propertyDefTemplate_def replace_eval
        numberToString.simps)
  have tCalc: \<open>moduleText ?g2 ''Calc''
        = Inr (''\<newline>''
           @ ''static facebook::jsi::Value __hostFunction_NativeCalcSpecJSI_add(facebook::jsi::Runtime& rt, TurboModule &turboModule, const facebook::jsi::Value* args, size_t count) {\<newline>''
           @ ''  return static_cast<JavaTurboModule &>(turboModule).invokeJavaMethod(rt, NumberKind, "add", "(DD)D", args, count);\<newline>''
           @ ''}\<newline>''
           @ ''\<newline>''
           @ ''NativeCalcSpecJSI::NativeCalcSpecJSI(const JavaTurboModule::InitParams &params)\<newline>''
           @ ''  : JavaTurboModule(params) {\<newline>''
           @ ''  methodMap_["add"] = MethodMetadata {2, __hostFunction_NativeCalcSpecJSI_add};\<newline>''
           @ ''}'')\<close>
    unfolding moduleText_def trimmed by (simp add: thunk entry bind_def replace_eval)
  have tLog: \<open>moduleText ?g1 ''Log''
        = Inr (''\<newline>''
           @ ''\<newline>''
           @ ''NativeLogSpecJSI::NativeLogSpecJSI(const JavaTurboModule::InitParams &params)\<newline>''
           @ ''  : JavaTurboModule(params) {\<newline>''
           @ ''\<newline>''
           @ ''}'')\<close>
    unfolding moduleText_def trimmed by (simp add: bind_def replace_eval)
  have tNet: \<open>moduleText ?g2 ''Net''
        = Inr (''\<newline>''
           @ ''\<newline>''
           @ ''NativeNetSpecJSI::NativeNetSpecJSI(const JavaTurboModule::InitParams &params)\<newline>''
           @ ''  : JavaTurboModule(params) {\<newline>''
           @ ''\<newline>''
           @ ''}'')\<close>
    unfolding moduleText_def trimmed by (simp add: bind_def replace_eval)
  have clean: \<open>\<forall>moduleName \<in> set [''Calc'', ''Log'', ''Net'']. CHR ''$'' \<notin> set moduleName\<close>
    by simp
  have lookup: \<open>moduleLookup (flattenNativeModules overwriteSchema)
        = join ''\<newline>''
                   (map (\<lambda>moduleName.
                           ''  if (moduleName == "'' @ moduleName @ ''") {\<newline>''
                           @ ''    return std::make_shared<Native'' @ moduleName
                           @ ''SpecJSI>(params);\<newline>''
                           @ ''  }'')
                      [''Calc'', ''Log'', ''Net''])\<close>
    using flat [THEN conjunct2, THEN conjunct2, THEN conjunct2, THEN conjunct2, THEN conjunct2]
      clean
    unfolding met emitted by (rule mp)
  have gen: \<open>generate ''SampleLib'' overwriteSchema ''SampleSpec''
     = Inr [(''SampleSpec-generated.cpp'',
           ''\<newline>''
           @ ''/**\<newline>''
           @ '' * Copyright (c) Facebook, Inc. and its affiliates.\<newline>''
           @ '' *\<newline>''
           @ '' * This source code is licensed under the MIT license found in the\<newline>''
           @ '' * LICENSE file in the root directory of this source tree.\<newline>''
           @ '' *\<newline>''
           @ '' * @generated by codegen project: GenerateModuleJniCpp.js\<newline>''
           @ '' */\<newline>''
           @ ''\<newline>''
           @ ''#include "SampleSpec.h"\<newline>''
           @ ''\<newline>''
           @ ''namespace facebook {\<newline>''
           @ ''namespace react {\<newline>''
           @ ''\<newline>''
           @ ''\<newline>''
           @ ''static facebook::jsi::Value __hostFunction_NativeCalcSpecJSI_add(facebook::jsi::Runtime& rt, TurboModule &turboModule, const facebook::jsi::Value* args, size_t count) {\<newline>''
           @ ''  return static_cast<JavaTurboModule &>(turboModule).invokeJavaMethod(rt, NumberKind, "add", "(DD)D", args, count);\<newline>''
           @ ''}\<newline>''
           @ ''\<newline>''
           @ ''NativeCalcSpecJSI::NativeCalcSpecJSI(const JavaTurboModule::InitParams &params)\<newline>''
           @ ''  : JavaTurboModule(params) {\<newline>''
           @ ''  methodMap_["add"] = MethodMetadata {2, __hostFunction_NativeCalcSpecJSI_add};\<newline>''
           @ ''}\<newline>''
           @ ''\<newline>''
           @ ''\<newline>''
           @ ''NativeLogSpecJSI::NativeLogSpecJSI(const JavaTurboModule::InitParams &params)\<newline>''
           @ ''  : JavaTurboModule(params) {\<newline>''
           @ ''\<newline>''
           @ ''}\<newline>''
           @ ''\<newline>''
           @ ''\<newline>''
           @ ''NativeNetSpecJSI::NativeNetSpecJSI(const JavaTurboModule::InitParams &params)\<newline>''
           @ ''  : JavaTurboModule(params) {\<newline>''
           @ ''\<newline>''
           @ ''}\<newline>''
           @ ''\<newline>''
           @ ''std::shared_ptr<TurboModule> SampleLib_ModuleProvider(const std::string moduleName, const JavaTurboModule::InitParams &params) {\<newline>''
           @ ''  if (moduleName == "Calc") {\<newline>''
           @ ''    return std::make_shared<NativeCalcSpecJSI>(params);\<newline>''
           @ ''  }\<newline>''
           @ ''  if (moduleName == "Log") {\<newline>''
           @ ''    return std::make_shared<NativeLogSpecJSI>(params);\<newline>''
           @ ''  }\<newline>''
           @ ''  if (moduleName == "Net") {\<newline>''
           @ ''    return std::make_shared<NativeNetSpecJSI>(params);\<newline>''
           @ ''  }\<newline>''
           @ ''}\<newline>''
           @ ''\<newline>''
           @ ''} // namespace react\<newline>''
           @ ''} // namespace facebook\<newline>'')]\<close>
    unfolding flat [THEN conjunct2, THEN conjunct2, THEN conjunct2, THEN conjunct2, THEN conjunct1,
                    unfolded met emitted]
      lookup
    by (simp add: calc log net tCalc tLog tNet bind_def template_def replace_eval)
  show ?thesis
    using keys calc gen by simp
qed

text \<open>
  C9. The lookup function has one block per module, but nothing after the blocks: the
  template closes the function right after \<^verbatim>\<open>::_MODULE_LOOKUP_::\<close>, and no statement for the
  case that no name matches is emitted. The function, declared to return a
  \<^verbatim>\<open>std::shared_ptr<TurboModule>\<close>, flows off its end in that case. The theorem gives the
  whole file generated for a library with the single module \<^verbatim>\<open>Calc\<close>.
\<close>

theorem generated_lookup_falls_off_the_end:
  \<open>generate ''SampleLib'' calcSchema ''SampleSpec''
     = Inr [(''SampleSpec-generated.cpp'',
           ''\<newline>''
           @ ''/**\<newline>''
           @ '' * Copyright (c) Facebook, Inc. and its affiliates.\<newline>''
           @ '' *\<newline>''
           @ '' * This source code is licensed under the MIT license found in the\<newline>''
           @ '' * LICENSE file in the root directory of this source tree.\<newline>''
           @ '' *\<newline>''
           @ '' * @generated by codegen project: GenerateModuleJniCpp.js\<newline>''
           @ '' */\<newline>''
           @ ''\<newline>''
           @ ''#include "SampleSpec.h"\<newline>''
           @ ''\<newline>''
           @ ''namespace facebook {\<newline>''
           @ ''namespace react {\<newline>''
           @ ''\<newline>''
           @ ''\<newline>''
           @ ''static facebook::jsi::Value __hostFunction_NativeCalcSpecJSI_add(facebook::jsi::Runtime& rt, TurboModule &turboModule, const facebook::jsi::Value* args, size_t count) {\<newline>''
           @ ''  return static_cast<JavaTurboModule &>(turboModule).invokeJavaMethod(rt, NumberKind, "add", "(DD)D", args, count);\<newline>''
           @ ''}\<newline>''
           @ ''\<newline>''
           @ ''NativeCalcSpecJSI::NativeCalcSpecJSI(const JavaTurboModule::InitParams &params)\<newline>''
           @ ''  : JavaTurboModule(params) {\<newline>''
           @ ''  methodMap_["add"] = MethodMetadata {2, __hostFunction_NativeCalcSpecJSI_add};\<newline>''
           @ ''}\<newline>''
           @ ''\<newline>''
           @ ''std::shared_ptr<TurboModule> SampleLib_ModuleProvider(const std::string moduleName, const JavaTurboModule::InitParams &params) {\<newline>''
           @ ''  if (moduleName == "Calc") {\<newline>''
           @ ''    return std::make_shared<NativeCalcSpecJSI>(params);\<newline>''
           @ ''  }\<newline>''
           @ ''}\<newline>''
           @ ''\<newline>''
           @ ''} // namespace react\<newline>''
           @ ''} // namespace facebook\<newline>'')]\<close>
proof -
  have flat: \<open>flattenNativeModules calcSchema
        = [(''Calc'', \<lparr>aliases = [], module_properties = [addMethod]\<rparr>)]\<close>
    by (simp add: calcSchema_def object_eval)
  have keys: \<open>objectKeys [(''Calc'', \<lparr>aliases = [], module_properties = [addMethod]\<rparr>)]
        = [''Calc'']\<close>
    by (simp add: object_eval)
  have thunk: \<open>translateMethodForImplementation addMethod []
        = Inr (''\<newline>''
           @ ''static facebook::jsi::Value __hostFunction_Native::_MODULE_NAME_::SpecJSI_add(facebook::jsi::Runtime& rt, TurboModule &turboModule, const facebook::jsi::Value* args, size_t count) {\<newline>''
           @ ''  return static_cast<JavaTurboModule &>(turboModule).invokeJavaMethod(rt, NumberKind, "add", "(DD)D", args, count);\<newline>''
           @ ''}'')\<close>
    by (simp add: addMethod_def translateMethodForImplementation_def translateReturnTypeToKind_def
        translateMethodTypeToJniSignature_def translateParamTypeToJniType_def
        translateReturnTypeToJniType_def bind_def thunk_text)
  have entry: \<open>propertiesMapEntry addMethod
        = ''  methodMap_["add"] = MethodMetadata {2, __hostFunction_Native::_MODULE_NAME_::SpecJSI_add};''\<close>
    by (simp add: addMethod_def propertiesMapEntry_def propertyDefTemplate_def replace_eval
        numberToString.simps)
  have trimmed: \<open>moduleTemplate
        = ''::_TURBOMODULE_METHOD_INVOKERS_::\<newline>''
          @ ''\<newline>''
          @ ''Native::_MODULE_NAME_::SpecJSI::Native::_MODULE_NAME_::SpecJSI(const JavaTurboModule::InitParams &params)\<newline>''
          @ ''  : JavaTurboModule(params) {\<newline>''
          @ ''::_PROPERTIES_MAP_::\<newline>''
          @ ''}''\<close>
    by (simp add: moduleTemplate_def trim_def isWhiteSpace_def)
  have calcText: \<open>moduleText [(''Calc'', \<lparr>aliases = [], module_properties = [addMethod]\<rparr>)] ''Calc''
        = Inr (''\<newline>''
           @ ''static facebook::jsi::Value __hostFunction_NativeCalcSpecJSI_add(facebook::jsi::Runtime& rt, TurboModule &turboModule, const facebook::jsi::Value* args, size_t count) {\<newline>''
           @ ''  return static_cast<JavaTurboModule &>(turboModule).invokeJavaMethod(rt, NumberKind, "add", "(DD)D", args, count);\<newline>''
           @ ''}\<newline>''
           @ ''\<newline>''
           @ ''NativeCalcSpecJSI::NativeCalcSpecJSI(const JavaTurboModule::InitParams &params)\<newline>''
           @ ''  : JavaTurboModule(params) {\<newline>''
           @ ''  methodMap_["add"] = MethodMetadata {2, __hostFunction_NativeCalcSpecJSI_add};\<newline>''
           @ ''}'')\<close>
    unfolding moduleText_def trimmed
    by (simp add: thunk entry bind_def replace_eval)
  have lookup: \<open>moduleLookup [(''Calc'', \<lparr>aliases = [], module_properties = [addMethod]\<rparr>)]
        = ''  if (moduleName == "Calc") {\<newline>''
           @ ''    return std::make_shared<NativeCalcSpecJSI>(params);\<newline>''
           @ ''  }''\<close>
    unfolding moduleLookup_def keys
    by (simp add: oneModuleLookupTemplate_def replace_eval)
  show ?thesis
    unfolding generate_def flat keys Let_def
    by (simp add: calcText lookup bind_def template_def replace_eval)
qed

end
